theory Spec2Isabelle
  imports Main "HOL-Library.Sublist"
begin

section \<open>The process and its collaborators\<close>

text \<open>
  The script \<^verbatim>\<open>create-baml-app\<close> (its latest revision, with \<^verbatim>\<open>checkCommandAvailable\<close>
  and the \<^verbatim>\<open>options\<close> argument of \<^verbatim>\<open>runCommand\<close>) is one asynchronous function \<^verbatim>\<open>main\<close>
  that talks to a terminal, to the file system and to child processes. The model threads
  an explicit state through it: the outside world, of any type \<open>'w\<close>, and the list of
  everything the process has done so far, each entry with the answer the world gave.
  The collaborators (\<^verbatim>\<open>fs\<close>, \<^verbatim>\<open>path\<close>, \<^verbatim>\<open>process\<close>, \<^verbatim>\<open>execa\<close>) are parameters: a record of
  functions on the world. Colours (\<^verbatim>\<open>chalk\<close>) and the three pictographs of the messages
  are left out of the printed texts, and so are the questions of the prompts.
\<close>

type_synonym path = string

text \<open>A JavaScript error object: \<^verbatim>\<open>error.code\<close> (absent unless the system call sets it) and
  \<^verbatim>\<open>error.message\<close>.\<close>

datatype js_error = JsError (err_code: "string option") (err_message: string)

datatype stdio = Inherit | Ignore

datatype stream = Stdout | Stderr

datatype event =
    Printed stream string
  | AskedInput string string
  | Reprompted string string string
  | AskedList string "string list" string
  | Spawned string "string list" stdio "path option" "js_error option"
  | Exists path bool
  | ReadDir path "js_error + string list"
  | MadeDir path "js_error option"
  | ChangedDir path "js_error option"
  | WroteFile path string "js_error option"

text \<open>
  \<open>Printed\<close>: \<^verbatim>\<open>console.log\<close> (\<open>Stdout\<close>) and \<^verbatim>\<open>console.error\<close> (\<open>Stderr\<close>).
  \<open>AskedInput name value\<close>: the input prompt \<open>name\<close> accepted \<open>value\<close>;
  \<open>Reprompted name value message\<close>: it refused \<open>value\<close> with \<open>message\<close> and asks again.
  \<open>AskedList name choices value\<close>: the list prompt \<open>name\<close> offered \<open>choices\<close> and the
  user selected \<open>value\<close>.
  \<open>Spawned command args stdio cwd error\<close>: \<^verbatim>\<open>execa(command, args, {stdio, cwd})\<close> ran, and
  failed with \<open>error\<close> unless that is \<open>None\<close>.
  \<open>Exists\<close>, \<open>ReadDir\<close>, \<open>MadeDir\<close>, \<open>ChangedDir\<close>, \<open>WroteFile\<close>: \<^verbatim>\<open>existsSync\<close>,
  \<^verbatim>\<open>fs.readdirSync\<close>, \<^verbatim>\<open>mkdirSync(_, {recursive: true})\<close>, \<^verbatim>\<open>process.chdir\<close> and
  \<^verbatim>\<open>fs.writeFileSync\<close>, with what they returned or threw.
\<close>

record 'w os =
  os_cwd :: "'w \<Rightarrow> path"
  os_resolve :: "'w \<Rightarrow> path \<Rightarrow> path"
  os_existsSync :: "'w \<Rightarrow> path \<Rightarrow> bool"
  os_readdirSync :: "'w \<Rightarrow> path \<Rightarrow> js_error + string list"
  os_mkdirSync :: "'w \<Rightarrow> path \<Rightarrow> js_error + 'w"
  os_chdir :: "'w \<Rightarrow> path \<Rightarrow> js_error + 'w"
  os_writeFileSync :: "'w \<Rightarrow> path \<Rightarrow> string \<Rightarrow> js_error + 'w"
  os_execa :: "'w \<Rightarrow> string \<Rightarrow> string list \<Rightarrow> stdio \<Rightarrow> path option \<Rightarrow> (js_error + string) \<times> 'w"

record 'w state =
  world :: 'w
  trace :: "event list"

text \<open>
  What a piece of the script does with the state: it returns a value, or ends the process
  (\<^verbatim>\<open>process.exit(code)\<close>), or throws, or waits for ever at a prompt nobody answers.
\<close>

datatype 'a outcome = Return 'a | Exit nat | Throw js_error | Hang

type_synonym ('w, 'a) prog = "'w state \<Rightarrow> 'a outcome \<times> 'w state"

definition ret :: "'a \<Rightarrow> ('w, 'a) prog" where
  "ret x s = (Return x, s)"

definition exit :: "nat \<Rightarrow> ('w, 'a) prog" where
  "exit code s = (Exit code, s)"

definition throw :: "js_error \<Rightarrow> ('w, 'a) prog" where
  "throw e s = (Throw e, s)"

definition hang :: "('w, 'a) prog" where
  "hang s = (Hang, s)"

text \<open>Sequencing (\<^verbatim>\<open>await\<close> and \<^verbatim>\<open>;\<close>): the rest runs only after a normal return.\<close>

definition bind :: "('w, 'a) prog \<Rightarrow> ('a \<Rightarrow> ('w, 'b) prog) \<Rightarrow> ('w, 'b) prog" where
  "bind m k s =
     (case m s of
        (Return x, s') \<Rightarrow> k x s'
      | (Exit code, s') \<Rightarrow> (Exit code, s')
      | (Throw e, s') \<Rightarrow> (Throw e, s')
      | (Hang, s') \<Rightarrow> (Hang, s'))"

text \<open>\<^verbatim>\<open>try { m } catch (error) { h }\<close>: only a throw reaches the handler;
  \<^verbatim>\<open>process.exit\<close> does not.\<close>

definition tryCatch :: "('w, 'a) prog \<Rightarrow> (js_error \<Rightarrow> ('w, 'a) prog) \<Rightarrow> ('w, 'a) prog" where
  "tryCatch m h s =
     (case m s of
        (Throw e, s') \<Rightarrow> h e s'
      | (r, s') \<Rightarrow> (r, s'))"

definition emit :: "event \<Rightarrow> ('w, unit) prog" where
  "emit e s = (Return (), s\<lparr>trace := trace s @ [e]\<rparr>)"

definition consoleLog :: "string \<Rightarrow> ('w, unit) prog" where
  "consoleLog text = emit (Printed Stdout text)"

definition consoleError :: "string \<Rightarrow> ('w, unit) prog" where
  "consoleError text = emit (Printed Stderr text)"

subsection \<open>The collaborators as steps of the process\<close>

definition processCwd :: "'w os \<Rightarrow> ('w, path) prog" where
  "processCwd os s = (Return (os_cwd os (world s)), s)"

definition resolve :: "'w os \<Rightarrow> path \<Rightarrow> ('w, path) prog" where
  "resolve os name s = (Return (os_resolve os (world s) name), s)"

definition existsSync :: "'w os \<Rightarrow> path \<Rightarrow> ('w, bool) prog" where
  "existsSync os p s =
     (let b = os_existsSync os (world s) p
      in (Return b, s\<lparr>trace := trace s @ [Exists p b]\<rparr>))"

definition readdirSync :: "'w os \<Rightarrow> path \<Rightarrow> ('w, string list) prog" where
  "readdirSync os p s =
     (let r = os_readdirSync os (world s) p;
          s' = s\<lparr>trace := trace s @ [ReadDir p r]\<rparr>
      in case r of Inl e \<Rightarrow> (Throw e, s') | Inr names \<Rightarrow> (Return names, s'))"

definition mkdirSync :: "'w os \<Rightarrow> path \<Rightarrow> ('w, unit) prog" where
  "mkdirSync os p s =
     (case os_mkdirSync os (world s) p of
        Inl e \<Rightarrow> (Throw e, s\<lparr>trace := trace s @ [MadeDir p (Some e)]\<rparr>)
      | Inr w \<Rightarrow> (Return (), \<lparr>world = w, trace = trace s @ [MadeDir p None]\<rparr>))"

definition processChdir :: "'w os \<Rightarrow> path \<Rightarrow> ('w, unit) prog" where
  "processChdir os p s =
     (case os_chdir os (world s) p of
        Inl e \<Rightarrow> (Throw e, s\<lparr>trace := trace s @ [ChangedDir p (Some e)]\<rparr>)
      | Inr w \<Rightarrow> (Return (), \<lparr>world = w, trace = trace s @ [ChangedDir p None]\<rparr>))"

definition writeFileSync :: "'w os \<Rightarrow> path \<Rightarrow> string \<Rightarrow> ('w, unit) prog" where
  "writeFileSync os p content s =
     (case os_writeFileSync os (world s) p content of
        Inl e \<Rightarrow> (Throw e, s\<lparr>trace := trace s @ [WroteFile p content (Some e)]\<rparr>)
      | Inr w \<Rightarrow> (Return (), \<lparr>world = w, trace = trace s @ [WroteFile p content None]\<rparr>))"

text \<open>\<^verbatim>\<open>execa\<close> rejects both when the executable cannot be spawned (code \<^verbatim>\<open>ENOENT\<close>) and
  when it exits with a non-zero status; the world after the call is the oracle's.\<close>

definition execa :: "'w os \<Rightarrow> string \<Rightarrow> string list \<Rightarrow> stdio \<Rightarrow> path option \<Rightarrow> ('w, string) prog" where
  "execa os command args io dir s =
     (case os_execa os (world s) command args io dir of
        (Inl e, w) \<Rightarrow> (Throw e, \<lparr>world = w, trace = trace s @ [Spawned command args io dir (Some e)]\<rparr>)
      | (Inr stdout, w) \<Rightarrow> (Return stdout, \<lparr>world = w, trace = trace s @ [Spawned command args io dir None]\<rparr>))"


subsection \<open>The prompts\<close>

text \<open>
  The prompt library is a collaborator. An input prompt hands every submitted line to
  \<^verbatim>\<open>validate\<close>, an empty line standing for the default; it returns the first value that
  \<^verbatim>\<open>validate\<close> accepts and asks again after any other, for as long as the user types.
  A list prompt returns the choice under the cursor, which moves down one choice per
  key press and wraps around. When the user provides nothing (more), the prompt waits.
\<close>

datatype validation = Valid | Invalid string

record user =
  typed :: "string list"
  languagePick :: "nat option"
  packageManagerPick :: "nat option"

fun inputPrompt :: "string \<Rightarrow> string \<Rightarrow> (string \<Rightarrow> validation) \<Rightarrow> string list \<Rightarrow> ('w, string) prog" where
  "inputPrompt name dflt validate [] = hang"
| "inputPrompt name dflt validate (line # rest) =
     (let input = (if line = [] then dflt else line)
      in case validate input of
           Valid \<Rightarrow> bind (emit (AskedInput name input)) (\<lambda>_. ret input)
         | Invalid message \<Rightarrow>
             bind (emit (Reprompted name input message)) (\<lambda>_. inputPrompt name dflt validate rest))"

definition listPrompt :: "string \<Rightarrow> string list \<Rightarrow> nat option \<Rightarrow> ('w, string) prog" where
  "listPrompt name choices pick =
     (case pick of
        None \<Rightarrow> hang
      | Some presses \<Rightarrow>
          if choices = [] then hang
          else (let answer = choices ! (presses mod length choices)
                in bind (emit (AskedList name choices answer)) (\<lambda>_. ret answer)))"

section \<open>The script\<close>

subsection \<open>\<^verbatim>\<open>showHelp\<close>, \<^verbatim>\<open>runCommand\<close>, \<^verbatim>\<open>checkCommandAvailable\<close>\<close>

definition showHelp :: "('w, unit) prog" where
  "showHelp =
     bind (consoleLog ''\<newline>Create BAML App'') (\<lambda>_.
     bind (consoleLog ''\<newline>Usage:'') (\<lambda>_.
     bind (consoleLog ''  npx create-baml-app [project-name] [options]'') (\<lambda>_.
     bind (consoleLog ''\<newline>Options:'') (\<lambda>_.
     bind (consoleLog ''  -h, --help              Show this help message'') (\<lambda>_.
     bind (consoleLog ''  --use-current-dir, -.   Use current directory instead of creating a new one'') (\<lambda>_.
     bind (consoleLog ''\<newline>Examples:'') (\<lambda>_.
     bind (consoleLog ''  npx create-baml-app my-baml-app'') (\<lambda>_.
     bind (consoleLog ''  npx create-baml-app my-baml-app --use-current-dir'') (\<lambda>_.
     bind (consoleLog ''  npx create-baml-app my-baml-app -.'') (\<lambda>_.
     bind (consoleLog ''\<newline>Supported Package Managers:'') (\<lambda>_.
     bind (consoleLog ''  - Python: pip, poetry, uv'') (\<lambda>_.
     bind (consoleLog ''  - TypeScript: npm, pnpm, yarn, deno, bun'') (\<lambda>_.
     bind (consoleLog ''  - Ruby: bundle'') (\<lambda>_.
     exit 0))))))))))))))"

definition notFoundMessage :: "string \<Rightarrow> string" where
  "notFoundMessage command =
     ''Error: Command '' @ [CHR 0x27] @ command @ [CHR 0x27] @
     '' not found. Please make sure it is installed and available in your PATH.''"

definition runCommand :: "'w os \<Rightarrow> string \<Rightarrow> string list \<Rightarrow> string \<Rightarrow> path option \<Rightarrow> ('w, string) prog" where
  "runCommand os command args description cwdOption =
     bind (consoleLog (''\<newline>Running: '' @ description @ ''...'')) (\<lambda>_.
     tryCatch
       (bind (execa os command args Inherit cwdOption) (\<lambda>stdout.
        bind (consoleLog ''Success!'') (\<lambda>_.
        ret stdout)))
       (\<lambda>error.
        bind (if err_code error = Some ''ENOENT''
              then consoleError (notFoundMessage command)
              else consoleError (''Error: '' @ err_message error)) (\<lambda>_.
        exit 1)))"

definition checkCommandAvailable :: "'w os \<Rightarrow> string \<Rightarrow> ('w, bool) prog" where
  "checkCommandAvailable os command =
     tryCatch
       (bind (execa os command [''--version''] Ignore None) (\<lambda>_.
        ret True))
       (\<lambda>error. ret False)"

subsection \<open>\<^verbatim>\<open>main\<close>, lines 54 to 200: arguments, prompts, availability, directory\<close>

text \<open>The character class \<^verbatim>\<open>[a-zA-Z0-9-_]\<close>: three ranges of code units, then the dash
  and the underscore as themselves. \<^verbatim>\<open>/^[a-zA-Z0-9-_]+$/.test(input)\<close> has no flag, so it
  holds when \<open>input\<close> is one or more characters of the class and nothing else.\<close>

definition inRange :: "char \<Rightarrow> char \<Rightarrow> char \<Rightarrow> bool" where
  "inRange lo hi c = ((of_char lo :: nat) \<le> of_char c \<and> (of_char c :: nat) \<le> of_char hi)"

definition classChar :: "char \<Rightarrow> bool" where
  "classChar c =
     (inRange CHR ''a'' CHR ''z'' c \<or> inRange CHR ''A'' CHR ''Z'' c \<or> inRange CHR ''0'' CHR ''9'' c
      \<or> c = CHR ''-'' \<or> c = CHR ''_'')"

definition regexTest :: "string \<Rightarrow> bool" where
  "regexTest input = (input \<noteq> [] \<and> list_all classChar input)"

definition validate :: "string \<Rightarrow> validation" where
  "validate input =
     (if input = ''.'' then Valid
      else if \<not> regexTest input
           then Invalid ''Project name can only contain letters, numbers, dashes and underscores''
           else Valid)"

text \<open>Lines 65 to 84. \<^verbatim>\<open>args[0]\<close> is \<^verbatim>\<open>undefined\<close> for an empty list, and
  \<^verbatim>\<open>!projectName\<close> holds for \<^verbatim>\<open>undefined\<close> and for the empty string.\<close>

definition getProjectName :: "string list \<Rightarrow> user \<Rightarrow> ('w, string) prog" where
  "getProjectName args user =
     (case args of
        [] \<Rightarrow> inputPrompt ''projectName'' ''my-app'' validate (typed user)
      | first # _ \<Rightarrow>
          if first = [] then inputPrompt ''projectName'' ''my-app'' validate (typed user)
          else ret first)"

definition selectLanguage :: "user \<Rightarrow> ('w, string) prog" where
  "selectLanguage user =
     listPrompt ''language'' [''Python'', ''TypeScript'', ''Ruby''] (languagePick user)"

text \<open>Lines 103 to 114; \<open>None\<close> is the variable left \<^verbatim>\<open>undefined\<close> by a \<^verbatim>\<open>switch\<close> without a
  matching case.\<close>

definition packageManagerChoices :: "string \<Rightarrow> string list option" where
  "packageManagerChoices language =
     (if language = ''Python'' then Some [''pip'', ''poetry'', ''uv'']
      else if language = ''TypeScript'' then Some [''npm'', ''pnpm'', ''yarn'', ''deno'', ''bun'']
      else if language = ''Ruby'' then Some [''bundle'']
      else None)"

definition selectPackageManager :: "user \<Rightarrow> string \<Rightarrow> ('w, string) prog" where
  "selectPackageManager user language =
     (case packageManagerChoices language of
        None \<Rightarrow> throw (JsError None ''choices is undefined'')
      | Some choices \<Rightarrow> listPrompt ''packageManager'' choices (packageManagerPick user))"


definition installLink :: "string \<Rightarrow> string" where
  "installLink packageManager =
     (if packageManager = ''pip'' then ''https://pip.pypa.io/en/stable/installation/''
      else if packageManager = ''poetry'' then ''https://python-poetry.org/docs/#installation''
      else if packageManager = ''uv'' then ''https://github.com/astral-sh/uv#installation''
      else if packageManager = ''npm'' then ''https://docs.npmjs.com/downloading-and-installing-node-js-and-npm''
      else if packageManager = ''pnpm'' then ''https://pnpm.io/installation''
      else if packageManager = ''yarn'' then ''https://classic.yarnpkg.com/en/docs/install''
      else if packageManager = ''deno'' then ''https://deno.land/#installation''
      else if packageManager = ''bundle'' then ''https://bundler.io/#getting-started''
      else if packageManager = ''bun'' then ''https://bun.sh/docs/installation''
      else [])"

text \<open>Lines 125 to 170: the availability check, with the second probe (of \<^verbatim>\<open>node\<close>) for
  \<^verbatim>\<open>npm\<close>, \<^verbatim>\<open>pnpm\<close> and \<^verbatim>\<open>yarn\<close>, and the exit with the installation link.\<close>

definition ensurePackageManager :: "'w os \<Rightarrow> string \<Rightarrow> ('w, unit) prog" where
  "ensurePackageManager os packageManager =
     bind (checkCommandAvailable os packageManager) (\<lambda>isPackageManagerAvailable.
     bind (if \<not> isPackageManagerAvailable \<and> packageManager \<in> set [''npm'', ''pnpm'', ''yarn'']
           then checkCommandAvailable os ''node''
           else ret isPackageManagerAvailable) (\<lambda>isPackageManagerAvailable.
     if \<not> isPackageManagerAvailable
     then
       bind (consoleLog (''\<newline>Error: '' @ packageManager @ '' is not installed or not available in PATH'')) (\<lambda>_.
       bind (consoleLog (''Please install '' @ packageManager @ '' first.'')) (\<lambda>_.
       bind (consoleLog (installLink packageManager @ ''\<newline>'')) (\<lambda>_.
       exit 1)))
     else ret ()))"

text \<open>Lines 172 to 200: the current directory must be empty, a new directory must not
  exist yet and is created, and the process moves into the target directory.\<close>

definition prepareDirectory :: "'w os \<Rightarrow> string \<Rightarrow> bool \<Rightarrow> path \<Rightarrow> ('w, unit) prog" where
  "prepareDirectory os projectName useCurrentDir targetDir =
     bind (if useCurrentDir
           then bind (existsSync os targetDir) (\<lambda>present.
                if present
                then bind (readdirSync os targetDir) (\<lambda>names. ret (length names > 0))
                else ret False)
           else ret False) (\<lambda>notEmpty.
     bind (if notEmpty
           then bind (consoleError ''\<newline>Error: Current directory is not empty. Please use a new directory or empty the current one.'') (\<lambda>_.
                exit 1)
           else ret ()) (\<lambda>_.
     bind (if \<not> useCurrentDir
           then
             bind (existsSync os targetDir) (\<lambda>present.
             bind (if present
                   then bind (consoleError (''\<newline>Error: Directory '' @ projectName @ '' already exists. Please choose a different name or use --use-current-dir to use an existing directory.'')) (\<lambda>_.
                        exit 1)
                   else ret ()) (\<lambda>_.
             bind (consoleLog (''\<newline>Creating a new BAML app in '' @ targetDir)) (\<lambda>_.
             tryCatch
               (mkdirSync os targetDir)
               (\<lambda>error.
                bind (consoleError (''Error creating directory: '' @ err_message error)) (\<lambda>_.
                exit 1)))))
           else ret ()) (\<lambda>_.
     tryCatch
       (processChdir os targetDir)
       (\<lambda>error.
        bind (consoleError (''Error changing to directory: '' @ err_message error)) (\<lambda>_.
        exit 1)))))"

text \<open>What lines 54 to 200 hand over to the rest of \<^verbatim>\<open>main\<close>.\<close>

record selection =
  sel_language :: string
  sel_packageManager :: string
  sel_targetDir :: path

text \<open>Lines 125 to 200 in one piece: the two checks that come after the prompts.\<close>

definition checkAndPrepare ::
    "'w os \<Rightarrow> string \<Rightarrow> bool \<Rightarrow> path \<Rightarrow> string \<Rightarrow> string \<Rightarrow> ('w, selection) prog" where
  "checkAndPrepare os projectName useCurrentDir targetDir language packageManager =
     bind (ensurePackageManager os packageManager) (\<lambda>_.
     bind (prepareDirectory os projectName useCurrentDir targetDir) (\<lambda>_.
     ret \<lparr>sel_language = language, sel_packageManager = packageManager,
          sel_targetDir = targetDir\<rparr>))"

definition prelude :: "'w os \<Rightarrow> string list \<Rightarrow> user \<Rightarrow> ('w, selection) prog" where
  "prelude os args user =
     bind (consoleLog ''\<newline>Welcome to create-baml-app!'') (\<lambda>_.
     bind (if ''-h'' \<in> set args \<or> ''--help'' \<in> set args then showHelp else ret ()) (\<lambda>_.
     bind (getProjectName args user) (\<lambda>projectName.
     let useCurrentDir =
           (projectName = ''.'' \<or> ''--use-current-dir'' \<in> set args \<or> ''-.'' \<in> set args)
     in
     bind (if useCurrentDir then processCwd os else resolve os projectName) (\<lambda>targetDir.
     bind (consoleLog ''\<newline>Let's set up your BAML project...\<newline>'') (\<lambda>_.
     bind (selectLanguage user) (\<lambda>language.
     bind (selectPackageManager user language) (\<lambda>packageManager.
     checkAndPrepare os projectName useCurrentDir targetDir language packageManager)))))))"

subsection \<open>\<^verbatim>\<open>main\<close>, lines 202 to 339: the commands of each ecosystem\<close>

definition setupPython :: "'w os \<Rightarrow> string \<Rightarrow> ('w, unit) prog" where
  "setupPython os packageManager =
     (if packageManager = ''pip'' then
        bind (existsSync os ''requirements.txt'') (\<lambda>present.
        bind (if \<not> present
              then bind (consoleLog ''\<newline>Initializing new Python project with pip...'') (\<lambda>_.
                   bind (runCommand os ''touch'' [''requirements.txt''] ''Creating requirements.txt'' None) (\<lambda>_.
                   ret ()))
              else ret ()) (\<lambda>_.
        bind (runCommand os ''pip'' [''install'', ''baml-py''] ''Installing baml-py'' None) (\<lambda>_.
        bind (runCommand os ''baml-cli'' [''init''] ''Initializing BAML'' None) (\<lambda>_.
        bind (runCommand os ''baml-cli'' [''generate''] ''Generating BAML files'' None) (\<lambda>_.
        ret ())))))
      else if packageManager = ''poetry'' then
        bind (existsSync os ''pyproject.toml'') (\<lambda>present.
        bind (if \<not> present
              then bind (consoleLog ''\<newline>Initializing new Python project with Poetry...'') (\<lambda>_.
                   bind (runCommand os ''poetry''
                           [''init'', ''--name=baml-project'', ''--description=A BAML project'',
                            ''--author='', ''--python=^3.8'', ''--no-interaction'']
                           ''Creating Poetry project'' None) (\<lambda>_.
                   ret ()))
              else ret ()) (\<lambda>_.
        bind (runCommand os ''poetry'' [''add'', ''baml-py''] ''Adding baml-py'' None) (\<lambda>_.
        bind (runCommand os ''poetry'' [''run'', ''baml-cli'', ''init''] ''Initializing BAML'' None) (\<lambda>_.
        bind (runCommand os ''poetry'' [''run'', ''baml-cli'', ''generate''] ''Generating BAML files'' None) (\<lambda>_.
        ret ())))))
      else if packageManager = ''uv'' then
        bind (existsSync os ''pyproject.toml'') (\<lambda>present.
        bind (if \<not> present
              then bind (consoleLog ''\<newline>Initializing new Python project with uv...'') (\<lambda>_.
                   bind (runCommand os ''uv'' [''init''] ''Initializing uv project'' None) (\<lambda>_.
                   ret ()))
              else ret ()) (\<lambda>_.
        bind (runCommand os ''uv'' [''add'', ''baml-py''] ''Adding baml-py'' None) (\<lambda>_.
        bind (runCommand os ''uv'' [''run'', ''baml-cli'', ''init''] ''Initializing BAML'' None) (\<lambda>_.
        bind (runCommand os ''uv'' [''run'', ''baml-cli'', ''generate''] ''Generating BAML files'' None) (\<lambda>_.
        ret ())))))
      else ret ())"

text \<open>\<^verbatim>\<open>JSON.stringify(denoConfig, null, 2)\<close>.\<close>

definition denoConfig :: string where
  \<open>denoConfig =
     ''{\<newline>  "compilerOptions": {\<newline>    "target": "ES2022",\<newline>    "lib": [\<newline>      "ES2022",\<newline>      "DOM"\<newline>    ],\<newline>    "module": "ES2022",\<newline>    "moduleResolution": "node",\<newline>    "esModuleInterop": true,\<newline>    "strict": true,\<newline>    "skipLibCheck": true\<newline>  }\<newline>}''\<close>

text \<open>Lines 237 to 252: TypeScript itself, except with Deno.\<close>

definition installTypeScript :: "'w os \<Rightarrow> string \<Rightarrow> ('w, unit) prog" where
  "installTypeScript os packageManager =
     (if packageManager \<noteq> ''deno'' \<and> packageManager \<noteq> ''bun'' then
        (if packageManager = ''npm'' then
           bind (runCommand os ''npm'' [''install'', ''typescript'', ''--save-dev''] ''Installing TypeScript'' None) (\<lambda>_. ret ())
         else if packageManager = ''pnpm'' then
           bind (runCommand os ''pnpm'' [''add'', ''typescript'', ''-D''] ''Installing TypeScript'' None) (\<lambda>_. ret ())
         else if packageManager = ''yarn'' then
           bind (runCommand os ''yarn'' [''add'', ''typescript'', ''--dev''] ''Installing TypeScript'' None) (\<lambda>_. ret ())
         else ret ())
      else if packageManager = ''bun'' then
        bind (runCommand os ''bun'' [''add'', ''typescript'', ''--dev''] ''Installing TypeScript'' None) (\<lambda>_. ret ())
      else ret ())"

text \<open>Lines 254 to 292: \<^verbatim>\<open>tsconfig.json\<close>, unless it is there; Deno's is written directly.\<close>

definition createTsconfig :: "'w os \<Rightarrow> string \<Rightarrow> ('w, unit) prog" where
  "createTsconfig os packageManager =
     bind (existsSync os ''tsconfig.json'') (\<lambda>present.
     if \<not> present then
       tryCatch
         (if packageManager = ''npm'' then
            bind (runCommand os ''npx'' [''tsc'', ''--init''] ''Creating tsconfig.json'' None) (\<lambda>_. ret ())
          else if packageManager = ''pnpm'' then
            bind (runCommand os ''pnpm'' [''exec'', ''tsc'', ''--init''] ''Creating tsconfig.json'' None) (\<lambda>_. ret ())
          else if packageManager = ''yarn'' then
            bind (runCommand os ''yarn'' [''tsc'', ''--init''] ''Creating tsconfig.json'' None) (\<lambda>_. ret ())
          else if packageManager = ''bun'' then
            bind (runCommand os ''bun'' [''x'', ''tsc'', ''--init''] ''Creating tsconfig.json'' None) (\<lambda>_. ret ())
          else if packageManager = ''deno'' then
            bind (consoleLog ''\<newline>Creating tsconfig.json for Deno...'') (\<lambda>_.
            bind (writeFileSync os ''tsconfig.json'' denoConfig) (\<lambda>_.
            consoleLog ''Success!''))
          else ret ())
         (\<lambda>error.
          bind (consoleError (''Error creating tsconfig.json: '' @ err_message error)) (\<lambda>_.
          exit 1))
     else ret ())"


text \<open>Lines 294 to 326: the BAML package and the two calls of its command line tool.\<close>

definition installBaml :: "'w os \<Rightarrow> string \<Rightarrow> path \<Rightarrow> ('w, unit) prog" where
  \<open>installBaml os packageManager targetDir =
     (if packageManager = ''npm'' then
        bind (runCommand os ''npm'' [''install'', ''@boundaryml/baml''] ''Installing @boundaryml/baml'' None) (\<lambda>_.
        bind (runCommand os ''npx'' [''baml-cli'', ''init''] ''Initializing BAML'' None) (\<lambda>_.
        bind (runCommand os ''npx'' [''baml-cli'', ''generate''] ''Generating BAML files'' None) (\<lambda>_.
        ret ())))
      else if packageManager = ''pnpm'' then
        bind (runCommand os ''pnpm'' [''add'', ''@boundaryml/baml''] ''Adding @boundaryml/baml'' None) (\<lambda>_.
        bind (runCommand os ''pnpm'' [''exec'', ''baml-cli'', ''init''] ''Initializing BAML'' None) (\<lambda>_.
        bind (runCommand os ''pnpm'' [''exec'', ''baml-cli'', ''generate''] ''Generating BAML files'' None) (\<lambda>_.
        ret ())))
      else if packageManager = ''yarn'' then
        bind (runCommand os ''yarn'' [''add'', ''@boundaryml/baml''] ''Adding @boundaryml/baml'' None) (\<lambda>_.
        bind (runCommand os ''yarn'' [''baml-cli'', ''init''] ''Initializing BAML'' None) (\<lambda>_.
        bind (runCommand os ''yarn'' [''baml-cli'', ''generate''] ''Generating BAML files'' None) (\<lambda>_.
        ret ())))
      else if packageManager = ''deno'' then
        bind (existsSync os ''deno.json'') (\<lambda>present.
        bind (if \<not> present
              then bind (consoleLog ''\<newline>Initializing new Deno project...'') (\<lambda>_.
                   bind (runCommand os ''deno'' [''init''] ''Creating deno.json'' None) (\<lambda>_.
                   ret ()))
              else ret ()) (\<lambda>_.
        bind (runCommand os ''deno'' [''install'', ''npm:@boundaryml/baml''] ''Installing @boundaryml/baml'' None) (\<lambda>_.
        bind (runCommand os ''deno'' [''run'', ''-A'', ''npm:@boundaryml/baml/baml-cli'', ''init'']
                ''Initializing BAML'' None) (\<lambda>_.
        bind (runCommand os ''deno''
                [''run'', ''--unstable-sloppy-imports'', ''-A'', ''npm:@boundaryml/baml/baml-cli'', ''generate'']
                ''Generating BAML files'' None) (\<lambda>_.
        bind (consoleLog ''\<newline>Note: As per BAML docs, for Deno in VSCode, add this to your config:'') (\<lambda>_.
        consoleLog ''{\<newline>  "deno.unstable": ["sloppy-imports"]\<newline>}''))))))
      else if packageManager = ''bun'' then
        bind (existsSync os ''package.json'') (\<lambda>present.
        bind (if \<not> present
              then bind (consoleLog ''\<newline>Initializing new Bun project...'') (\<lambda>_.
                   bind (runCommand os ''bun'' [''init'', ''-y''] ''Creating package.json'' (Some targetDir)) (\<lambda>_.
                   ret ()))
              else ret ()) (\<lambda>_.
        bind (runCommand os ''bun'' [''install'', ''@boundaryml/baml''] ''Installing @boundaryml/baml''
                (Some targetDir)) (\<lambda>_.
        bind (runCommand os ''bun'' [''x'', ''baml-cli'', ''init''] ''Initializing BAML'' (Some targetDir)) (\<lambda>_.
        bind (runCommand os ''bun'' [''x'', ''baml-cli'', ''generate''] ''Generating BAML files''
                (Some targetDir)) (\<lambda>_.
        ret ())))))
      else ret ())\<close>

definition setupTypeScript :: "'w os \<Rightarrow> string \<Rightarrow> path \<Rightarrow> ('w, unit) prog" where
  "setupTypeScript os packageManager targetDir =
     bind (installTypeScript os packageManager) (\<lambda>_.
     bind (createTsconfig os packageManager) (\<lambda>_.
     installBaml os packageManager targetDir))"

definition setupRuby :: "'w os \<Rightarrow> ('w, unit) prog" where
  "setupRuby os =
     bind (existsSync os ''Gemfile'') (\<lambda>present.
     bind (if \<not> present
           then bind (consoleLog ''\<newline>Initializing new Ruby project...'') (\<lambda>_.
                bind (runCommand os ''bundle'' [''init''] ''Creating Gemfile'' None) (\<lambda>_.
                ret ()))
           else ret ()) (\<lambda>_.
     bind (runCommand os ''bundle'' [''add'', ''baml'', ''sorbet-runtime''] ''Adding baml and sorbet-runtime'' None) (\<lambda>_.
     bind (runCommand os ''bundle'' [''exec'', ''baml-cli'', ''init''] ''Initializing BAML'' None) (\<lambda>_.
     bind (runCommand os ''bundle'' [''exec'', ''baml-cli'', ''generate''] ''Generating BAML files'' None) (\<lambda>_.
     ret ())))))"

definition executeCommands :: "'w os \<Rightarrow> selection \<Rightarrow> ('w, unit) prog" where
  "executeCommands os sel =
     bind (consoleLog (''\<newline>Setting up your '' @ sel_language sel @ '' BAML project with ''
                       @ sel_packageManager sel @ ''...\<newline>'')) (\<lambda>_.
     bind (if sel_language sel = ''Python'' then setupPython os (sel_packageManager sel)
           else if sel_language sel = ''TypeScript''
                then setupTypeScript os (sel_packageManager sel) (sel_targetDir sel)
           else if sel_language sel = ''Ruby'' then setupRuby os
           else ret ()) (\<lambda>_.
     bind (consoleLog ''\<newline>All done! Your BAML project is ready.'') (\<lambda>_.
     consoleLog ''Next steps: Check your project directory and start coding!'')))"

subsection \<open>The whole run\<close>

definition main :: "'w os \<Rightarrow> string list \<Rightarrow> user \<Rightarrow> ('w, unit) prog" where
  "main os args user = bind (prelude os args user) (executeCommands os)"

text \<open>\<^verbatim>\<open>main().catch(...)\<close>, the last statement of the script. \<open>args\<close> is
  \<^verbatim>\<open>process.argv.slice(2)\<close>.\<close>

definition program :: "'w os \<Rightarrow> string list \<Rightarrow> user \<Rightarrow> ('w, unit) prog" where
  "program os args user =
     tryCatch
       (main os args user)
       (\<lambda>error.
        bind (consoleError (''An unexpected error occurred: '' @ err_message error)) (\<lambda>_.
        exit 1))"

text \<open>The status the process ends with: that of \<^verbatim>\<open>process.exit\<close>, or 0 when the script runs
  to its end; an uncaught throw ends it with 1; a process that waits for ever has none.\<close>

definition exitCode :: "'a outcome \<Rightarrow> nat option" where
  "exitCode r = (case r of Return _ \<Rightarrow> Some 0 | Exit code \<Rightarrow> Some code | Throw _ \<Rightarrow> Some 1 | Hang \<Rightarrow> None)"

definition start :: "'w \<Rightarrow> 'w state" where
  "start w = \<lparr>world = w, trace = []\<rparr>"

datatype kind = KPrint | KInput | KList | KProbe | KStep | KExists | KReadDir | KMkdir | KChdir | KWrite

fun kindOf :: "event \<Rightarrow> kind" where
  "kindOf (Printed out text) = KPrint"
| "kindOf (AskedInput name v) = KInput"
| "kindOf (Reprompted name v m) = KInput"
| "kindOf (AskedList name choices v) = KList"
| "kindOf (Spawned c a io d r) = (if io = Inherit then KStep else KProbe)"
| "kindOf (Exists p b) = KExists"
| "kindOf (ReadDir p r) = KReadDir"
| "kindOf (MadeDir p r) = KMkdir"
| "kindOf (ChangedDir p r) = KChdir"
| "kindOf (WroteFile p c r) = KWrite"

fun status :: "'a outcome \<Rightarrow> unit outcome" where
  "status (Return x) = Return ()"
| "status (Exit n) = Exit n"
| "status (Throw e) = Throw e"
| "status Hang = Hang"

definition adds :: "kind set \<Rightarrow> (unit outcome \<Rightarrow> bool) \<Rightarrow> ('w, 'a) prog \<Rightarrow> bool" where
  "adds K Q m = (\<forall>s r s'. m s = (r, s') \<longrightarrow>
       (\<exists>evs. trace s' = trace s @ evs \<and> kindOf ` set evs \<subseteq> K) \<and> Q (status r))"

definition endsWell :: "unit outcome \<Rightarrow> bool" where
  "endsWell r = (r = Return () \<or> r = Exit 1)"

definition mayThrow :: "unit outcome \<Rightarrow> bool" where
  "mayThrow r = (r = Return () \<or> r = Exit 1 \<or> (\<exists>e. r = Throw e))"

definition execKinds :: "kind set" where
  "execKinds = {KPrint, KExists, KStep, KWrite}"

definition helpLines :: "event list" where
  "helpLines = map (Printed Stdout)
     [''\<newline>Create BAML App'', ''\<newline>Usage:'', ''  npx create-baml-app [project-name] [options]'',
      ''\<newline>Options:'', ''  -h, --help              Show this help message'',
      ''  --use-current-dir, -.   Use current directory instead of creating a new one'',
      ''\<newline>Examples:'', ''  npx create-baml-app my-baml-app'',
      ''  npx create-baml-app my-baml-app --use-current-dir'', ''  npx create-baml-app my-baml-app -.'',
      ''\<newline>Supported Package Managers:'', ''  - Python: pip, poetry, uv'',
      ''  - TypeScript: npm, pnpm, yarn, deno, bun'', ''  - Ruby: bundle'']"

definition nameFacts :: "string list \<Rightarrow> string \<Rightarrow> event list \<Rightarrow> bool" where
  "nameFacts args projectName pre =
     (kindOf ` set pre \<subseteq> {KPrint, KInput} \<and>
      (\<forall>n y. AskedInput n y \<in> set pre \<longrightarrow> y = projectName) \<and>
      (\<forall>a. take 1 args = [a] \<and> a \<noteq> [] \<longrightarrow> projectName = a) \<and>
      ((\<exists>a. take 1 args = [a] \<and> a \<noteq> []) \<or> AskedInput ''projectName'' projectName \<in> set pre))"

definition probe :: "string \<Rightarrow> js_error option \<Rightarrow> event" where
  "probe command r = Spawned command [''--version''] Ignore None r"

definition missingPrints :: "string \<Rightarrow> event list" where
  "missingPrints pm =
     [Printed Stdout (''\<newline>Error: '' @ pm @ '' is not installed or not available in PATH''),
      Printed Stdout (''Please install '' @ pm @ '' first.''),
      Printed Stdout (installLink pm @ ''\<newline>'')]"

definition dirChecks :: "bool \<Rightarrow> path \<Rightarrow> event list \<Rightarrow> bool" where
  "dirChecks useCurrentDir td checks =
     (if useCurrentDir
      then checks = [Exists td False] \<or> checks = [Exists td True, ReadDir td (Inr [])]
      else checks = [Exists td False, Printed Stdout (''\<newline>Creating a new BAML app in '' @ td),
                     MadeDir td None])"

definition availableProbes :: "string \<Rightarrow> event list \<Rightarrow> bool" where
  "availableProbes pm probes =
     (probes = [probe pm None] \<or>
      (\<exists>e. pm \<in> set [''npm'', ''pnpm'', ''yarn''] \<and> probes = [probe pm (Some e), probe ''node'' None]))"

definition missingProbes :: "string \<Rightarrow> event list \<Rightarrow> bool" where
  "missingProbes pm probes =
     ((\<exists>e. pm \<notin> set [''npm'', ''pnpm'', ''yarn''] \<and> probes = [probe pm (Some e)]) \<or>
      (\<exists>e e2. pm \<in> set [''npm'', ''pnpm'', ''yarn''] \<and>
               probes = [probe pm (Some e), probe ''node'' (Some e2)]))"

definition stoppedInDirectory :: "bool \<Rightarrow> path \<Rightarrow> string \<Rightarrow> event list \<Rightarrow> bool" where
  "stoppedInDirectory useCurrentDir td projectName evs =
     ((useCurrentDir \<and> (\<exists>x xs. evs = [Exists td True, ReadDir td (Inr (x # xs)),
          Printed Stderr ''\<newline>Error: Current directory is not empty. Please use a new directory or empty the current one.''])) \<or>
      (useCurrentDir \<and> (\<exists>e. evs = [Exists td True, ReadDir td (Inl e),
          Printed Stderr (''An unexpected error occurred: '' @ err_message e)])) \<or>
      (\<not> useCurrentDir \<and> evs = [Exists td True,
          Printed Stderr (''\<newline>Error: Directory '' @ projectName @ '' already exists. Please choose a different name or use --use-current-dir to use an existing directory.'')]) \<or>
      (\<not> useCurrentDir \<and> (\<exists>e. evs = [Exists td False,
          Printed Stdout (''\<newline>Creating a new BAML app in '' @ td), MadeDir td (Some e),
          Printed Stderr (''Error creating directory: '' @ err_message e)])) \<or>
      (\<exists>checks e. dirChecks useCurrentDir td checks \<and> evs = checks @ [ChangedDir td (Some e),
          Printed Stderr (''Error changing to directory: '' @ err_message e)]))"

definition currentDirMode :: "string list \<Rightarrow> string \<Rightarrow> bool" where
  "currentDirMode args projectName =
     (projectName = ''.'' \<or> ''--use-current-dir'' \<in> set args \<or> ''-.'' \<in> set args)"

definition targetOf :: "'w os \<Rightarrow> 'w \<Rightarrow> string list \<Rightarrow> string \<Rightarrow> path" where
  "targetOf os w args projectName =
     (if currentDirMode args projectName then os_cwd os w else os_resolve os w projectName)"

definition answered :: "string \<Rightarrow> string list \<Rightarrow> string \<Rightarrow> event list" where
  "answered l ch pm =
     [AskedList ''language'' [''Python'', ''TypeScript'', ''Ruby''] l, AskedList ''packageManager'' ch pm]"

definition afterProbes ::
    "'w os \<Rightarrow> 'w \<Rightarrow> string list \<Rightarrow> string \<Rightarrow> string \<Rightarrow> string \<Rightarrow> event list \<Rightarrow> event list \<Rightarrow>
     event list \<Rightarrow> unit outcome \<Rightarrow> 'w state \<Rightarrow> bool" where
  "afterProbes os w args projectName l pm before probes rest r s' =
     ((missingProbes pm probes \<and> rest = missingPrints pm \<and> r = Exit 1) \<or>
      (availableProbes pm probes \<and> r = Exit 1 \<and>
       stoppedInDirectory (currentDirMode args projectName) (targetOf os w args projectName)
         projectName rest) \<or>
      (availableProbes pm probes \<and>
       (\<exists>checks evs sMid.
          dirChecks (currentDirMode args projectName) (targetOf os w args projectName) checks \<and>
          rest = checks @ [ChangedDir (targetOf os w args projectName) None] @ evs \<and>
          trace sMid = before @ probes @ checks @
                         [ChangedDir (targetOf os w args projectName) None] \<and>
          executeCommands os \<lparr>sel_language = l, sel_packageManager = pm,
                               sel_targetDir = targetOf os w args projectName\<rparr> sMid = (r, s') \<and>
          kindOf ` set evs \<subseteq> execKinds \<and> endsWell r)))"

definition lateKinds :: "kind set" where
  "lateKinds = {KPrint, KExists, KReadDir, KMkdir, KChdir, KStep, KWrite}"

definition validManagers :: "string \<Rightarrow> string set" where
  "validManagers language =
     (if language = ''Python'' then {''pip'', ''poetry'', ''uv''}
      else if language = ''TypeScript'' then {''npm'', ''pnpm'', ''yarn'', ''deno'', ''bun''}
      else if language = ''Ruby'' then {''bundle''}
      else {})"

definition usesCurrentDir :: "string list \<Rightarrow> event list \<Rightarrow> bool" where
  "usesCurrentDir args tr =
     (''--use-current-dir'' \<in> set args \<or> ''-.'' \<in> set args \<or> take 1 args = [''.''] \<or>
      AskedInput ''projectName'' ''.'' \<in> set tr)"

fun steps :: "event list \<Rightarrow> (string \<times> string list) list" where
  "steps [] = []"
| "steps (Spawned command args Inherit dir r # es) = (command, args) # steps es"
| "steps (e # es) = steps es"

definition typeScriptInstall :: "string \<Rightarrow> string list" where
  "typeScriptInstall packageManager =
     (if packageManager = ''npm'' then [''install'', ''typescript'', ''--save-dev'']
      else if packageManager = ''pnpm'' then [''add'', ''typescript'', ''-D'']
      else [''add'', ''typescript'', ''--dev''])"

definition running :: "string \<Rightarrow> event" where
  "running description = Printed Stdout (''\<newline>Running: '' @ description @ ''...'')"

definition diagnostic :: "string \<Rightarrow> js_error \<Rightarrow> event" where
  "diagnostic command error =
     Printed Stderr (if err_code error = Some ''ENOENT'' then notFoundMessage command
                     else ''Error: '' @ err_message error)"

lemmas prim_defs = bind_def ret_def exit_def throw_def hang_def tryCatch_def emit_def
  consoleLog_def consoleError_def existsSync_def readdirSync_def mkdirSync_def processChdir_def
  writeFileSync_def execa_def processCwd_def resolve_def

lemma adds_ret: "Q (Return ()) \<Longrightarrow> adds K Q (ret x)"
  by (simp add: adds_def ret_def)

lemma adds_exit: "Q (Exit n) \<Longrightarrow> adds K Q (exit n)"
  by (simp add: adds_def exit_def)

lemma adds_bind:
  assumes m: "adds K Q m" and k: "\<And>x. adds K Q (k x)"
  shows "adds K Q (bind m k)"
  unfolding adds_def
proof (intro allI impI)
  fix s r s'
  assume run: "bind m k s = (r, s')"
  obtain r1 s1 where m1: "m s = (r1, s1)" by (cases "m s")
  from m m1 obtain evs1 where e1: "trace s1 = trace s @ evs1" "kindOf ` set evs1 \<subseteq> K" and q1: "Q (status r1)"
    unfolding adds_def by blast
  show "(\<exists>evs. trace s' = trace s @ evs \<and> kindOf ` set evs \<subseteq> K) \<and> Q (status r)"
  proof (cases r1)
    case (Return x)
    with run m1 have kx: "k x s1 = (r, s')" by (simp add: bind_def)
    from k [of x] kx obtain evs2 where e2: "trace s' = trace s1 @ evs2" "kindOf ` set evs2 \<subseteq> K" and q2: "Q (status r)"
      unfolding adds_def by blast
    from e1 e2 have "trace s' = trace s @ (evs1 @ evs2)" "kindOf ` set (evs1 @ evs2) \<subseteq> K" by auto
    with q2 show ?thesis by blast
  next
    case (Exit n)
    with run m1 have "r = Exit n" "s' = s1" by (simp_all add: bind_def)
    with e1 q1 Exit show ?thesis by auto
  next
    case (Throw e)
    with run m1 have "r = Throw e" "s' = s1" by (simp_all add: bind_def)
    with e1 q1 Throw show ?thesis by auto
  next
    case Hang
    with run m1 have "r = Hang" "s' = s1" by (simp_all add: bind_def)
    with e1 q1 Hang show ?thesis by auto
  qed
qed

lemma adds_tryCatch:
  assumes m: "adds K Q' m" and h: "\<And>e. adds K Q (h e)"
    and weaken: "\<And>r. Q' r \<Longrightarrow> (\<forall>e. r \<noteq> Throw e) \<Longrightarrow> Q r"
  shows "adds K Q (tryCatch m h)"
  unfolding adds_def
proof (intro allI impI)
  fix s r s'
  assume run: "tryCatch m h s = (r, s')"
  obtain r1 s1 where m1: "m s = (r1, s1)" by (cases "m s")
  from m m1 obtain evs1 where e1: "trace s1 = trace s @ evs1" "kindOf ` set evs1 \<subseteq> K" and q1: "Q' (status r1)"
    unfolding adds_def by blast
  show "(\<exists>evs. trace s' = trace s @ evs \<and> kindOf ` set evs \<subseteq> K) \<and> Q (status r)"
  proof (cases r1)
    case (Throw e)
    with run m1 have he: "h e s1 = (r, s')" by (simp add: tryCatch_def)
    from h [of e] he obtain evs2 where e2: "trace s' = trace s1 @ evs2" "kindOf ` set evs2 \<subseteq> K" and q2: "Q (status r)"
      unfolding adds_def by blast
    from e1 e2 have "trace s' = trace s @ (evs1 @ evs2)" "kindOf ` set (evs1 @ evs2) \<subseteq> K" by auto
    with q2 show ?thesis by blast
  next
    case (Return x)
    with run m1 have "r = Return x" "s' = s1" by (simp_all add: tryCatch_def)
    with e1 q1 Return weaken [of "Return ()"] show ?thesis by auto
  next
    case (Exit n)
    with run m1 have "r = Exit n" "s' = s1" by (simp_all add: tryCatch_def)
    with e1 q1 Exit weaken [of "Exit n"] show ?thesis by auto
  next
    case Hang
    with run m1 have "r = Hang" "s' = s1" by (simp_all add: tryCatch_def)
    with e1 q1 Hang weaken [of Hang] show ?thesis by auto
  qed
qed

lemma adds_if: "adds K Q a \<Longrightarrow> adds K Q b \<Longrightarrow> adds K Q (if c then a else b)"
  by simp

lemma adds_emit: "kindOf e \<in> K \<Longrightarrow> Q (Return ()) \<Longrightarrow> adds K Q (emit e)"
  by (auto simp: adds_def emit_def)

lemma adds_consoleLog: "KPrint \<in> K \<Longrightarrow> Q (Return ()) \<Longrightarrow> adds K Q (consoleLog text)"
  by (simp add: consoleLog_def adds_emit)

lemma adds_consoleError: "KPrint \<in> K \<Longrightarrow> Q (Return ()) \<Longrightarrow> adds K Q (consoleError text)"
  by (simp add: consoleError_def adds_emit)

lemma adds_execa:
  "(if io = Inherit then KStep else KProbe) \<in> K \<Longrightarrow> Q (Return ()) \<Longrightarrow> (\<And>e. Q (Throw e)) \<Longrightarrow>
   adds K Q (execa os command args io dir)"
  by (auto simp: adds_def execa_def split: prod.splits sum.splits)

lemma adds_existsSync: "KExists \<in> K \<Longrightarrow> Q (Return ()) \<Longrightarrow> adds K Q (existsSync os p)"
  by (auto simp: adds_def existsSync_def Let_def)

lemma adds_writeFileSync:
  "KWrite \<in> K \<Longrightarrow> Q (Return ()) \<Longrightarrow> (\<And>e. Q (Throw e)) \<Longrightarrow> adds K Q (writeFileSync os p content)"
  by (auto simp: adds_def writeFileSync_def split: sum.splits)

lemma adds_runCommand:
  assumes "KPrint \<in> K" "KStep \<in> K"
  shows "adds K endsWell (runCommand os command args description dir)"
  unfolding runCommand_def
  by (intro adds_bind adds_tryCatch [where Q' = mayThrow] adds_if adds_consoleLog adds_consoleError
      adds_execa adds_ret adds_exit)
     (auto simp: assms endsWell_def mayThrow_def)

lemma adds_runCommand_mayThrow:
  assumes "KPrint \<in> K" "KStep \<in> K"
  shows "adds K mayThrow (runCommand os command args description dir)"
  unfolding runCommand_def
  by (intro adds_bind adds_tryCatch [where Q' = mayThrow] adds_if adds_consoleLog adds_consoleError
      adds_execa adds_ret adds_exit)
     (auto simp: assms endsWell_def mayThrow_def)

lemma execKinds_mem [simp]: "KPrint \<in> execKinds" "KExists \<in> execKinds" "KStep \<in> execKinds" "KWrite \<in> execKinds"
  by (simp_all add: execKinds_def)

lemma endsWell_simps [simp]: "endsWell (Return ())" "endsWell (Exit 1)"
  by (simp_all add: endsWell_def)

lemma mayThrow_simps [simp]: "mayThrow (Return ())" "mayThrow (Exit 1)" "mayThrow (Throw e)"
  by (simp_all add: mayThrow_def)

lemmas adds_intros = adds_bind adds_if adds_consoleLog adds_consoleError adds_existsSync
  adds_ret adds_exit

lemma adds_setupPython: "adds execKinds endsWell (setupPython os pm)"
  unfolding setupPython_def
  by (intro adds_intros adds_runCommand) simp_all

lemma adds_setupRuby: "adds execKinds endsWell (setupRuby os)"
  unfolding setupRuby_def
  by (intro adds_intros adds_runCommand) simp_all

lemma adds_installTypeScript: "adds execKinds endsWell (installTypeScript os pm)"
  unfolding installTypeScript_def
  by (intro adds_intros adds_runCommand) simp_all

lemma adds_createTsconfig: "adds execKinds endsWell (createTsconfig os pm)"
  unfolding createTsconfig_def
  by (intro adds_intros adds_tryCatch [where Q' = mayThrow] adds_runCommand_mayThrow adds_writeFileSync)
     (simp_all add: mayThrow_def endsWell_def)

lemma adds_installBaml: "adds execKinds endsWell (installBaml os pm dir)"
  unfolding installBaml_def
  by (intro adds_intros adds_runCommand) simp_all

lemma adds_executeCommands: "adds execKinds endsWell (executeCommands os sel)"
  unfolding executeCommands_def setupTypeScript_def
  by (intro adds_intros adds_setupPython adds_setupRuby adds_installTypeScript adds_createTsconfig
      adds_installBaml) simp_all

lemma bind_consoleLog: "bind (consoleLog text) k s = k () (s\<lparr>trace := trace s @ [Printed Stdout text]\<rparr>)"
  by (simp add: bind_def consoleLog_def emit_def)

lemma bind_consoleError: "bind (consoleError text) k s = k () (s\<lparr>trace := trace s @ [Printed Stderr text]\<rparr>)"
  by (simp add: bind_def consoleError_def emit_def)

lemma bind_emit: "bind (emit e) k s = k () (s\<lparr>trace := trace s @ [e]\<rparr>)"
  by (simp add: bind_def emit_def)

lemma bind_ret: "bind (ret x) k s = k x s"
  by (simp add: bind_def ret_def)

lemma bind_exit: "bind (exit n) k s = (Exit n, s)"
  by (simp add: bind_def exit_def)

lemma bind_hang: "bind hang k s = (Hang, s)"
  by (simp add: bind_def hang_def)

lemma bind_throw: "bind (throw e) k s = (Throw e, s)"
  by (simp add: bind_def throw_def)

lemma bind_processCwd: "bind (processCwd os) k s = k (os_cwd os (world s)) s"
  by (simp add: bind_def processCwd_def)

lemma bind_resolve: "bind (resolve os name) k s = k (os_resolve os (world s) name) s"
  by (simp add: bind_def resolve_def)

lemma bind_existsSync:
  "bind (existsSync os p) k s =
     k (os_existsSync os (world s) p) (s\<lparr>trace := trace s @ [Exists p (os_existsSync os (world s) p)]\<rparr>)"
  by (simp add: bind_def existsSync_def Let_def)

lemma bind_assoc_apply: "bind (bind m f) g s = bind m (\<lambda>x. bind (f x) g) s"
  by (simp add: bind_def split: prod.splits outcome.splits)

lemma bind_Return: "m s = (Return x, s1) \<Longrightarrow> bind m k s = k x s1"
  by (simp add: bind_def)

lemma bind_Exit: "m s = (Exit n, s1) \<Longrightarrow> bind m k s = (Exit n, s1)"
  by (simp add: bind_def)

lemma bind_Throw: "m s = (Throw e, s1) \<Longrightarrow> bind m k s = (Throw e, s1)"
  by (simp add: bind_def)

lemma bind_Hang: "m s = (Hang, s1) \<Longrightarrow> bind m k s = (Hang, s1)"
  by (simp add: bind_def)

lemma bind_cases:
  assumes "bind m k s = (r, s')"
  obtains (returned) x s1 where "m s = (Return x, s1)" "k x s1 = (r, s')"
    | (exited) n where "m s = (Exit n, s')" "r = Exit n"
    | (threw) e where "m s = (Throw e, s')" "r = Throw e"
    | (hung) "m s = (Hang, s')" "r = Hang"
proof -
  obtain r1 s1 where m1: "m s = (r1, s1)" by (cases "m s")
  show thesis
  proof (cases r1)
    case (Return x) with assms m1 returned show thesis by (simp add: bind_def) 
  next
    case (Exit n) with assms m1 exited show thesis by (simp add: bind_def)
  next
    case (Throw e) with assms m1 threw show thesis by (simp add: bind_def)
  next
    case Hang with assms m1 hung show thesis by (simp add: bind_def)
  qed
qed

lemma showHelp_eq: "showHelp s = (Exit 0, s\<lparr>trace := trace s @ helpLines\<rparr>)"
  by (simp add: showHelp_def bind_consoleLog exit_def helpLines_def)

lemma kinds_helpLines: "kindOf ` set helpLines \<subseteq> {KPrint}"
  by (simp add: helpLines_def)

lemma inputPrompt_Cons:
  "inputPrompt name dflt v (line # rest) s =
     (case v (if line = [] then dflt else line) of
        Valid \<Rightarrow> (Return (if line = [] then dflt else line),
                  s\<lparr>trace := trace s @ [AskedInput name (if line = [] then dflt else line)]\<rparr>)
      | Invalid message \<Rightarrow>
          inputPrompt name dflt v rest
            (s\<lparr>trace := trace s @ [Reprompted name (if line = [] then dflt else line) message]\<rparr>))"
  by (simp add: Let_def bind_emit ret_def split: validation.splits)

lemma inputPrompt_shape:
  "inputPrompt name dflt v lines s = (r, s') \<Longrightarrow>
     world s' = world s \<and>
     (\<exists>evs. trace s' = trace s @ evs \<and> kindOf ` set evs \<subseteq> {KInput} \<and>
        ((\<exists>x. r = Return x \<and> v x = Valid \<and> AskedInput name x \<in> set evs \<and>
              (\<forall>n y. AskedInput n y \<in> set evs \<longrightarrow> y = x)) \<or>
         (r = Hang \<and> (\<forall>n y. AskedInput n y \<notin> set evs))))"
proof (induction lines arbitrary: s)
  case Nil
  then show ?case by (simp add: hang_def)
next
  case (Cons line rest)
  let ?input = "if line = [] then dflt else line"
  show ?case
  proof (cases "v ?input")
    case Valid
    with Cons.prems have "r = Return ?input" "s' = s\<lparr>trace := trace s @ [AskedInput name ?input]\<rparr>"
      unfolding inputPrompt_Cons by simp_all
    with Valid show ?thesis by simp
  next
    case (Invalid message)
    with Cons.prems
    have "inputPrompt name dflt v rest (s\<lparr>trace := trace s @ [Reprompted name ?input message]\<rparr>) = (r, s')"
      unfolding inputPrompt_Cons by simp
    from Cons.IH [OF this] obtain evs where
      w: "world s' = world s" and
      t: "trace s' = (trace s @ [Reprompted name ?input message]) @ evs" and
      k: "kindOf ` set evs \<subseteq> {KInput}" and
      o: "(\<exists>x. r = Return x \<and> v x = Valid \<and> AskedInput name x \<in> set evs \<and>
              (\<forall>n y. AskedInput n y \<in> set evs \<longrightarrow> y = x)) \<or>
          (r = Hang \<and> (\<forall>n y. AskedInput n y \<notin> set evs))"
      by auto
    let ?evs = "Reprompted name ?input message # evs"
    from t have "trace s' = trace s @ ?evs" by simp
    moreover from k have "kindOf ` set ?evs \<subseteq> {KInput}" by simp
    moreover from o have "(\<exists>x. r = Return x \<and> v x = Valid \<and> AskedInput name x \<in> set ?evs \<and>
              (\<forall>n y. AskedInput n y \<in> set ?evs \<longrightarrow> y = x)) \<or>
          (r = Hang \<and> (\<forall>n y. AskedInput n y \<notin> set ?evs))"
      by auto
    ultimately show ?thesis using w by blast
  qed
qed

lemma getProjectName_shape:
  assumes "getProjectName args user s = (r, s')"
  shows "world s' = world s \<and>
     (\<exists>evs. trace s' = trace s @ evs \<and> kindOf ` set evs \<subseteq> {KInput} \<and>
        ((\<exists>x. r = Return x \<and> (\<forall>n y. AskedInput n y \<in> set evs \<longrightarrow> y = x) \<and>
              (\<forall>a. take 1 args = [a] \<and> a \<noteq> [] \<longrightarrow> x = a) \<and>
              ((\<exists>a. take 1 args = [a] \<and> a \<noteq> []) \<or> AskedInput ''projectName'' x \<in> set evs)) \<or>
         (r = Hang \<and> (\<forall>n y. AskedInput n y \<notin> set evs))))"
proof (cases "\<exists>a. take 1 args = [a] \<and> a \<noteq> []")
  case True
  then obtain a rest where "args = a # rest" "a \<noteq> []" by (cases args) auto
  with assms have "r = Return a" "s' = s" by (simp_all add: getProjectName_def ret_def)
  with \<open>args = a # rest\<close> \<open>a \<noteq> []\<close> show ?thesis by simp
next
  case False
  then have "args = [] \<or> (\<exists>rest. args = [] # rest)" by (cases args) auto
  with assms have "inputPrompt ''projectName'' ''my-app'' validate (typed user) s = (r, s')"
    by (auto simp: getProjectName_def)
  from inputPrompt_shape [OF this] False show ?thesis by blast
qed

lemma listPrompt_bind:
  "choices \<noteq> [] \<Longrightarrow> bind (listPrompt name choices pick) k s =
     (case pick of
        None \<Rightarrow> (Hang, s)
      | Some n \<Rightarrow> k (choices ! (n mod length choices))
                  (s\<lparr>trace := trace s @ [AskedList name choices (choices ! (n mod length choices))]\<rparr>))"
  by (simp add: listPrompt_def bind_hang bind_emit bind_ret Let_def bind_assoc_apply split: option.splits)

lemma packageManagerChoices_language:
  assumes "l \<in> set [''Python'', ''TypeScript'', ''Ruby'']"
  obtains ch where "packageManagerChoices l = Some ch" "ch \<noteq> []"
  using assms by (auto simp: packageManagerChoices_def)

lemma prelude_shape:
  assumes "prelude os args user (start w) = (r, s)"
  shows "(kindOf ` set (trace s) \<subseteq> {KPrint, KInput, KList} \<and>
          (\<forall>ch pm. AskedList ''packageManager'' ch pm \<notin> set (trace s)) \<and>
          (r = Exit 0 \<or> r = Hang)) \<or>
         (''-h'' \<notin> set args \<and> ''--help'' \<notin> set args \<and>
          (\<exists>pre projectName l ch pm.
             nameFacts args projectName pre \<and>
             l \<in> set [''Python'', ''TypeScript'', ''Ruby''] \<and>
             packageManagerChoices l = Some ch \<and> pm \<in> set ch \<and>
             checkAndPrepare os projectName
               (projectName = ''.'' \<or> ''--use-current-dir'' \<in> set args \<or> ''-.'' \<in> set args)
               (if projectName = ''.'' \<or> ''--use-current-dir'' \<in> set args \<or> ''-.'' \<in> set args
                then os_cwd os w else os_resolve os w projectName)
               l pm
               \<lparr>world = w,
                trace = pre @ [AskedList ''language'' [''Python'', ''TypeScript'', ''Ruby''] l,
                               AskedList ''packageManager'' ch pm]\<rparr> = (r, s)))"
    (is "?early \<or> ?late")
proof (cases "''-h'' \<in> set args \<or> ''--help'' \<in> set args")
  case True
  with assms have "r = Exit 0"
    "s = \<lparr>world = w, trace = Printed Stdout ''\<newline>Welcome to create-baml-app!'' # helpLines\<rparr>"
    by (simp_all add: prelude_def start_def bind_consoleLog bind_Exit [OF showHelp_eq])
  then have ?early using kinds_helpLines by (auto simp: helpLines_def)
  then show ?thesis ..
next
  case False
  let ?W = "Printed Stdout ''\<newline>Welcome to create-baml-app!''"
  let ?L = "Printed Stdout ''\<newline>Let's set up your BAML project...\<newline>''"
  let ?langs = "[''Python'', ''TypeScript'', ''Ruby'']"
  let ?s1 = "\<lparr>world = w, trace = [?W]\<rparr>"
  obtain r1 s2 where g: "getProjectName args user ?s1 = (r1, s2)"
    by (cases "getProjectName args user ?s1")
  from getProjectName_shape [OF g] obtain evs where
    w2: "world s2 = w" and t2: "trace s2 = ?W # evs" and k2: "kindOf ` set evs \<subseteq> {KInput}" and
    o2: "(\<exists>x. r1 = Return x \<and> (\<forall>n y. AskedInput n y \<in> set evs \<longrightarrow> y = x) \<and>
              (\<forall>a. take 1 args = [a] \<and> a \<noteq> [] \<longrightarrow> x = a) \<and>
              ((\<exists>a. take 1 args = [a] \<and> a \<noteq> []) \<or> AskedInput ''projectName'' x \<in> set evs)) \<or>
         (r1 = Hang \<and> (\<forall>n y. AskedInput n y \<notin> set evs))"
    by auto
  have s2: "s2 = \<lparr>world = w, trace = ?W # evs\<rparr>" using w2 t2 by (cases s2) simp
  from o2 show ?thesis
  proof
    assume "r1 = Hang \<and> (\<forall>n y. AskedInput n y \<notin> set evs)"
    with assms False g have "r = Hang" "s = s2"
      by (simp_all add: prelude_def start_def bind_consoleLog bind_ret bind_Hang [of _ _ s2])
    with s2 k2 have ?early by auto
    then show ?thesis ..
  next
    assume "\<exists>x. r1 = Return x \<and> (\<forall>n y. AskedInput n y \<in> set evs \<longrightarrow> y = x) \<and>
              (\<forall>a. take 1 args = [a] \<and> a \<noteq> [] \<longrightarrow> x = a) \<and>
              ((\<exists>a. take 1 args = [a] \<and> a \<noteq> []) \<or> AskedInput ''projectName'' x \<in> set evs)"
    then obtain x where r1: "r1 = Return x" and u: "\<forall>n y. AskedInput n y \<in> set evs \<longrightarrow> y = x"
      and a: "\<forall>a. take 1 args = [a] \<and> a \<noteq> [] \<longrightarrow> x = a"
      and b: "(\<exists>a. take 1 args = [a] \<and> a \<noteq> []) \<or> AskedInput ''projectName'' x \<in> set evs" by blast
    let ?ucd = "x = ''.'' \<or> ''--use-current-dir'' \<in> set args \<or> ''-.'' \<in> set args"
    let ?td = "if ?ucd then os_cwd os w else os_resolve os w x"
    let ?s3 = "\<lparr>world = w, trace = ?W # evs @ [?L]\<rparr>"
    have rest: "bind (selectLanguage user) (\<lambda>language.
                bind (selectPackageManager user language) (\<lambda>packageManager.
                checkAndPrepare os x ?ucd ?td language packageManager)) ?s3 = (r, s)"
    proof (cases ?ucd)
      case True
      with assms False g r1 s2 show ?thesis
        by (simp add: prelude_def start_def bind_consoleLog bind_ret bind_Return [of _ _ x s2]
            bind_processCwd Let_def)
    next
      case nc: False
      with assms False g r1 s2 show ?thesis
        by (simp add: prelude_def start_def bind_consoleLog bind_ret bind_Return [of _ _ x s2]
            bind_resolve Let_def)
    qed
    show ?thesis
    proof (cases "languagePick user")
      case None
      with rest have "r = Hang" "s = ?s3" by (simp_all add: selectLanguage_def listPrompt_bind)
      with k2 have ?early by auto
      then show ?thesis ..
    next
      case (Some n)
      let ?l = "?langs ! (n mod length ?langs)"
      have l: "?l \<in> set ?langs" by (rule nth_mem) simp
      then obtain ch where ch: "packageManagerChoices ?l = Some ch" "ch \<noteq> []"
        by (rule packageManagerChoices_language)
      let ?s4 = "\<lparr>world = w, trace = ?W # evs @ [?L, AskedList ''language'' ?langs ?l]\<rparr>"
      from rest Some ch
      have rest2: "bind (listPrompt ''packageManager'' ch (packageManagerPick user)) (\<lambda>packageManager.
                checkAndPrepare os x ?ucd ?td ?l packageManager) ?s4 = (r, s)"
        by (simp add: selectLanguage_def listPrompt_bind selectPackageManager_def)
      show ?thesis
      proof (cases "packageManagerPick user")
        case None
        with rest2 ch have "r = Hang" "s = ?s4" by (simp_all add: listPrompt_bind)
        with k2 have ?early by auto
        then show ?thesis ..
      next
        case (Some m)
        let ?pm = "ch ! (m mod length ch)"
        have pm: "?pm \<in> set ch" using ch by (intro nth_mem) simp
        from rest2 Some ch
        have "checkAndPrepare os x ?ucd ?td ?l ?pm
                \<lparr>world = w, trace = (?W # evs @ [?L]) @ [AskedList ''language'' ?langs ?l,
                               AskedList ''packageManager'' ch ?pm]\<rparr> = (r, s)"
          by (simp add: listPrompt_bind)
        moreover have "nameFacts args x (?W # evs @ [?L])"
          unfolding nameFacts_def using k2 u a b by auto
        ultimately have ?late using False l ch pm by blast
        then show ?thesis ..
      qed
    qed
  qed
qed

lemma checkCommandAvailable_eq:
  "checkCommandAvailable os command s =
     (case os_execa os (world s) command [''--version''] Ignore None of
        (Inl e, w) \<Rightarrow> (Return False, \<lparr>world = w, trace = trace s @ [probe command (Some e)]\<rparr>)
      | (Inr out, w) \<Rightarrow> (Return True, \<lparr>world = w, trace = trace s @ [probe command None]\<rparr>))"
  by (simp add: checkCommandAvailable_def prim_defs probe_def split: prod.splits sum.splits)

lemma checkCommandAvailable_cases:
  obtains (yes) w where "checkCommandAvailable os command s =
                           (Return True, \<lparr>world = w, trace = trace s @ [probe command None]\<rparr>)"
    | (no) e w where "checkCommandAvailable os command s =
                           (Return False, \<lparr>world = w, trace = trace s @ [probe command (Some e)]\<rparr>)"
proof -
  obtain res w where x: "os_execa os (world s) command [''--version''] Ignore None = (res, w)"
    by (cases "os_execa os (world s) command [''--version''] Ignore None")
  show thesis
  proof (cases res)
    case (Inl e)
    with x have "checkCommandAvailable os command s =
                   (Return False, \<lparr>world = w, trace = trace s @ [probe command (Some e)]\<rparr>)"
      by (simp add: checkCommandAvailable_eq)
    then show thesis by (rule no)
  next
    case (Inr out)
    with x have "checkCommandAvailable os command s =
                   (Return True, \<lparr>world = w, trace = trace s @ [probe command None]\<rparr>)"
      by (simp add: checkCommandAvailable_eq)
    then show thesis by (rule yes)
  qed
qed

lemma missing_exit:
  "bind (consoleLog a) (\<lambda>_. bind (consoleLog b) (\<lambda>_. bind (consoleLog c) (\<lambda>_. exit n))) s =
     (Exit n, s\<lparr>trace := trace s @ [Printed Stdout a, Printed Stdout b, Printed Stdout c]\<rparr>)"
  by (simp add: bind_consoleLog exit_def)

lemma ensurePackageManager_cases:
  assumes "ensurePackageManager os pm s = (r, s')"
  obtains (available) probes where "r = Return ()" "trace s' = trace s @ probes"
      "probes = [probe pm None] \<or>
       (\<exists>e. pm \<in> set [''npm'', ''pnpm'', ''yarn''] \<and> probes = [probe pm (Some e), probe ''node'' None])"
    | (missing) probes where "r = Exit 1" "trace s' = trace s @ probes @ missingPrints pm"
      "(\<exists>e. pm \<notin> set [''npm'', ''pnpm'', ''yarn''] \<and> probes = [probe pm (Some e)]) \<or>
       (\<exists>e e2. pm \<in> set [''npm'', ''pnpm'', ''yarn''] \<and>
                probes = [probe pm (Some e), probe ''node'' (Some e2)])"
proof (cases rule: checkCommandAvailable_cases [of os pm s])
  case (yes w)
  with assms have "r = Return ()" "trace s' = trace s @ [probe pm None]"
    by (auto simp: ensurePackageManager_def bind_Return [of "checkCommandAvailable os pm" s, OF yes] bind_ret ret_def)
  then show thesis by (intro available) auto
next
  case (no e w)
  let ?s1 = "\<lparr>world = w, trace = trace s @ [probe pm (Some e)]\<rparr>"
  show thesis
  proof (cases "pm \<in> set [''npm'', ''pnpm'', ''yarn'']")
    case False
    with assms no have "r = Exit 1" "trace s' = trace s @ [probe pm (Some e)] @ missingPrints pm"
      by (auto simp: ensurePackageManager_def bind_Return [of "checkCommandAvailable os pm" s, OF no] bind_ret missing_exit missingPrints_def)
    with False show thesis by (intro missing) auto
  next
    case True
    show thesis
    proof (cases rule: checkCommandAvailable_cases [of os "''node''" ?s1])
      case (yes w2)
      with assms no True have "r = Return ()" "trace s' = trace s @ [probe pm (Some e), probe ''node'' None]"
        by (auto simp: ensurePackageManager_def bind_Return [of "checkCommandAvailable os pm" s, OF no]
            bind_Return [of "checkCommandAvailable os ''node''" ?s1, OF yes] ret_def)
      with True show thesis by (intro available) auto
    next
      case (no e2 w2)
      with assms \<open>checkCommandAvailable os pm s = (Return False, ?s1)\<close> True
      have "r = Exit 1"
        "trace s' = trace s @ [probe pm (Some e), probe ''node'' (Some e2)] @ missingPrints pm"
        by (auto simp: ensurePackageManager_def
            bind_Return [of "checkCommandAvailable os pm" s, OF \<open>checkCommandAvailable os pm s = (Return False, ?s1)\<close>]
            bind_Return [of "checkCommandAvailable os ''node''" ?s1, OF no] missing_exit missingPrints_def)
      with True show thesis by (intro missing) auto
    qed
  qed
qed

lemma bind_readdirSync:
  "bind (readdirSync os p) k s =
     (case os_readdirSync os (world s) p of
        Inl e \<Rightarrow> (Throw e, s\<lparr>trace := trace s @ [ReadDir p (Inl e)]\<rparr>)
      | Inr names \<Rightarrow> k names (s\<lparr>trace := trace s @ [ReadDir p (Inr names)]\<rparr>))"
  by (simp add: bind_def readdirSync_def Let_def split: sum.splits)

lemma bind_tryCatch_mkdirSync:
  "bind (tryCatch (mkdirSync os p) (\<lambda>error. bind (consoleError (f error)) (\<lambda>_. exit n))) k s =
     (case os_mkdirSync os (world s) p of
        Inl e \<Rightarrow> (Exit n, s\<lparr>trace := trace s @ [MadeDir p (Some e), Printed Stderr (f e)]\<rparr>)
      | Inr w \<Rightarrow> k () \<lparr>world = w, trace = trace s @ [MadeDir p None]\<rparr>)"
  by (simp add: bind_def tryCatch_def mkdirSync_def consoleError_def emit_def exit_def split: sum.splits)

lemma chdir_cases:
  assumes "tryCatch (processChdir os td)
             (\<lambda>error. bind (consoleError (''Error changing to directory: '' @ err_message error))
                         (\<lambda>_. exit 1)) s = (r, s')"
  shows "(r = Return () \<and> trace s' = trace s @ [ChangedDir td None]) \<or>
         (\<exists>e. r = Exit 1 \<and> trace s' = trace s @ [ChangedDir td (Some e),
                   Printed Stderr (''Error changing to directory: '' @ err_message e)])"
  using assms
  by (cases "os_chdir os (world s) td")
     (auto simp: tryCatch_def processChdir_def bind_consoleError exit_def)

lemma prepareDirectory_current:
  assumes "prepareDirectory os projectName True td s = (r, s')"
  shows "(\<exists>x xs. r = Exit 1 \<and> trace s' = trace s @ [Exists td True, ReadDir td (Inr (x # xs)),
            Printed Stderr ''\<newline>Error: Current directory is not empty. Please use a new directory or empty the current one.'']) \<or>
         (\<exists>e. r = Throw e \<and> trace s' = trace s @ [Exists td True, ReadDir td (Inl e)]) \<or>
         (\<exists>checks. dirChecks True td checks \<and>
            ((r = Return () \<and> trace s' = trace s @ checks @ [ChangedDir td None]) \<or>
             (\<exists>e. r = Exit 1 \<and> trace s' = trace s @ checks @ [ChangedDir td (Some e),
                   Printed Stderr (''Error changing to directory: '' @ err_message e)])))"
proof (cases "os_existsSync os (world s) td")
  case False
  let ?s1 = "s\<lparr>trace := trace s @ [Exists td False]\<rparr>"
  from assms False have "tryCatch (processChdir os td)
             (\<lambda>error. bind (consoleError (''Error changing to directory: '' @ err_message error))
                         (\<lambda>_. exit 1)) ?s1 = (r, s')"
    by (simp add: prepareDirectory_def bind_assoc_apply bind_existsSync bind_ret)
  from chdir_cases [OF this] show ?thesis by (auto simp: dirChecks_def)
next
  case True
  show ?thesis
  proof (cases "os_readdirSync os (world s) td")
    case (Inl e)
    with assms True have "r = Throw e" "trace s' = trace s @ [Exists td True, ReadDir td (Inl e)]"
      by (auto simp: prepareDirectory_def bind_assoc_apply bind_existsSync bind_readdirSync)
    then show ?thesis by simp
  next
    case (Inr names)
    let ?s1 = "s\<lparr>trace := trace s @ [Exists td True, ReadDir td (Inr names)]\<rparr>"
    show ?thesis
    proof (cases names)
      case Nil
      with assms True Inr have "tryCatch (processChdir os td)
             (\<lambda>error. bind (consoleError (''Error changing to directory: '' @ err_message error))
                         (\<lambda>_. exit 1)) ?s1 = (r, s')"
        by (simp add: prepareDirectory_def bind_assoc_apply bind_existsSync bind_readdirSync bind_ret)
      from chdir_cases [OF this] Nil show ?thesis by (auto simp: dirChecks_def)
    next
      case (Cons x xs)
      with assms True Inr have "r = Exit 1" "trace s' = trace s @ [Exists td True, ReadDir td (Inr (x # xs)),
            Printed Stderr ''\<newline>Error: Current directory is not empty. Please use a new directory or empty the current one.'']"
        by (auto simp: prepareDirectory_def bind_assoc_apply bind_existsSync bind_readdirSync
          bind_ret bind_consoleError bind_exit)
      then show ?thesis by simp
    qed
  qed
qed

lemma prepareDirectory_new:
  assumes "prepareDirectory os projectName False td s = (r, s')"
  shows "(r = Exit 1 \<and> trace s' = trace s @ [Exists td True,
            Printed Stderr (''\<newline>Error: Directory '' @ projectName @ '' already exists. Please choose a different name or use --use-current-dir to use an existing directory.'')]) \<or>
         (\<exists>e. r = Exit 1 \<and> trace s' = trace s @ [Exists td False,
            Printed Stdout (''\<newline>Creating a new BAML app in '' @ td), MadeDir td (Some e),
            Printed Stderr (''Error creating directory: '' @ err_message e)]) \<or>
         (\<exists>checks. dirChecks False td checks \<and>
            ((r = Return () \<and> trace s' = trace s @ checks @ [ChangedDir td None]) \<or>
             (\<exists>e. r = Exit 1 \<and> trace s' = trace s @ checks @ [ChangedDir td (Some e),
                   Printed Stderr (''Error changing to directory: '' @ err_message e)])))"
proof (cases "os_existsSync os (world s) td")
  case True
  with assms show ?thesis
    by (auto simp: prepareDirectory_def bind_assoc_apply bind_existsSync bind_ret bind_consoleError bind_exit)
next
  case False
  let ?s1 = "s\<lparr>trace := trace s @ [Exists td False, Printed Stdout (''\<newline>Creating a new BAML app in '' @ td)]\<rparr>"
  show ?thesis
  proof (cases "os_mkdirSync os (world s) td")
    case (Inl e)
    with assms False have "r = Exit 1" "trace s' = trace s @ [Exists td False,
            Printed Stdout (''\<newline>Creating a new BAML app in '' @ td), MadeDir td (Some e),
            Printed Stderr (''Error creating directory: '' @ err_message e)]"
      by (auto simp: prepareDirectory_def bind_assoc_apply bind_existsSync bind_ret bind_consoleLog
          bind_tryCatch_mkdirSync)
    then show ?thesis by simp
  next
    case (Inr w)
    let ?s2 = "\<lparr>world = w, trace = trace s @ [Exists td False,
                  Printed Stdout (''\<newline>Creating a new BAML app in '' @ td), MadeDir td None]\<rparr>"
    from assms False Inr have "tryCatch (processChdir os td)
             (\<lambda>error. bind (consoleError (''Error changing to directory: '' @ err_message error))
                         (\<lambda>_. exit 1)) ?s2 = (r, s')"
      by (simp add: prepareDirectory_def bind_assoc_apply bind_existsSync bind_ret bind_consoleLog
          bind_tryCatch_mkdirSync)
    from chdir_cases [OF this] show ?thesis by (auto simp: dirChecks_def)
  qed
qed

lemma prepareDirectory_shape:
  assumes "prepareDirectory os projectName ucd td s = (r, s')"
  shows "(\<exists>e. ucd \<and> r = Throw e \<and> trace s' = trace s @ [Exists td True, ReadDir td (Inl e)]) \<or>
         (\<exists>evs. r = Exit 1 \<and> trace s' = trace s @ evs \<and> stoppedInDirectory ucd td projectName evs \<and>
                (\<forall>e m. evs \<noteq> [Exists td True, ReadDir td (Inl e), Printed Stderr m])) \<or>
         (\<exists>checks. r = Return () \<and> dirChecks ucd td checks \<and>
                   trace s' = trace s @ checks @ [ChangedDir td None])"
proof (cases ucd)
  case True
  with assms have "prepareDirectory os projectName True td s = (r, s')" by simp
  from prepareDirectory_current [OF this] True show ?thesis
    unfolding stoppedInDirectory_def dirChecks_def by (elim disjE exE conjE) auto
next
  case False
  with assms have "prepareDirectory os projectName False td s = (r, s')" by simp
  from prepareDirectory_new [OF this] False show ?thesis
    unfolding stoppedInDirectory_def dirChecks_def by (elim disjE exE conjE) auto
qed

lemma checkAndPrepare_shape:
  assumes "checkAndPrepare os projectName ucd td l pm s = (r, s')"
  shows "\<exists>probes rest. trace s' = trace s @ probes @ rest \<and>
     ((missingProbes pm probes \<and> rest = missingPrints pm \<and> r = Exit 1) \<or>
      (availableProbes pm probes \<and>
         ((\<exists>e. ucd \<and> r = Throw e \<and> rest = [Exists td True, ReadDir td (Inl e)]) \<or>
          (r = Exit 1 \<and> stoppedInDirectory ucd td projectName rest) \<or>
          (\<exists>checks. r = Return \<lparr>sel_language = l, sel_packageManager = pm, sel_targetDir = td\<rparr> \<and>
                    dirChecks ucd td checks \<and> rest = checks @ [ChangedDir td None]))))"
proof -
  from assms have b: "bind (ensurePackageManager os pm) (\<lambda>_.
     bind (prepareDirectory os projectName ucd td) (\<lambda>_.
     ret \<lparr>sel_language = l, sel_packageManager = pm, sel_targetDir = td\<rparr>)) s = (r, s')"
    by (simp add: checkAndPrepare_def)
  obtain r1 s1 where e: "ensurePackageManager os pm s = (r1, s1)"
    by (cases "ensurePackageManager os pm s")
  from e show ?thesis
  proof (cases rule: ensurePackageManager_cases)
    case (missing probes)
    with b e have "r = Exit 1" "s' = s1"
      by (simp_all add: bind_Exit [of "ensurePackageManager os pm" s 1 s1])
    with missing show ?thesis unfolding missingProbes_def by blast
  next
    case (available probes)
    then have av: "availableProbes pm probes" unfolding availableProbes_def by blast
    from b e available
    have b2: "bind (prepareDirectory os projectName ucd td) (\<lambda>_.
       ret \<lparr>sel_language = l, sel_packageManager = pm, sel_targetDir = td\<rparr>) s1 = (r, s')"
      by (simp add: bind_Return [of "ensurePackageManager os pm" s "()" s1])
    obtain r2 s2 where p: "prepareDirectory os projectName ucd td s1 = (r2, s2)"
      by (cases "prepareDirectory os projectName ucd td s1")
    from prepareDirectory_shape [OF p]
    consider (threw) e where "ucd" "r2 = Throw e" "trace s2 = trace s1 @ [Exists td True, ReadDir td (Inl e)]"
      | (stopped) evs where "r2 = Exit 1" "trace s2 = trace s1 @ evs" "stoppedInDirectory ucd td projectName evs"
      | (entered) checks where "r2 = Return ()" "dirChecks ucd td checks"
          "trace s2 = trace s1 @ checks @ [ChangedDir td None]"
      by blast
    then show ?thesis
    proof cases
      case (threw e)
      from p threw(2) have "bind (prepareDirectory os projectName ucd td) (\<lambda>_. ret \<lparr>sel_language = l, sel_packageManager = pm, sel_targetDir = td\<rparr>) s1 = (Throw e, s2)"
        by (simp add: bind_def)
      with b2 have "r = Throw e" "s' = s2" by simp_all
      with threw available av show ?thesis by auto
    next
      case (stopped evs)
      from p stopped(1) have "bind (prepareDirectory os projectName ucd td) (\<lambda>_. ret \<lparr>sel_language = l, sel_packageManager = pm, sel_targetDir = td\<rparr>) s1 = (Exit 1, s2)"
        by (simp add: bind_def)
      with b2 have "r = Exit 1" "s' = s2" by simp_all
      with stopped available av show ?thesis by auto
    next
      case (entered checks)
      from p entered(1) have "bind (prepareDirectory os projectName ucd td) (\<lambda>_. ret \<lparr>sel_language = l, sel_packageManager = pm, sel_targetDir = td\<rparr>) s1 = (\<lambda>_. ret \<lparr>sel_language = l, sel_packageManager = pm, sel_targetDir = td\<rparr>) () s2"
        by (simp add: bind_def)
      with b2 have "r = Return \<lparr>sel_language = l, sel_packageManager = pm, sel_targetDir = td\<rparr>" "s' = s2"
        by (simp_all add: ret_def)
      with entered available av show ?thesis by auto
    qed
  qed
qed

lemma status_unit: "status (r :: unit outcome) = r"
  by (cases r) simp_all

lemma program_shape:
  assumes "program os args user (start w) = (r, s')"
  shows "(kindOf ` set (trace s') \<subseteq> {KPrint, KInput, KList} \<and>
          (\<forall>ch pm. AskedList ''packageManager'' ch pm \<notin> set (trace s')) \<and>
          (r = Exit 0 \<or> r = Hang)) \<or>
         (''-h'' \<notin> set args \<and> ''--help'' \<notin> set args \<and>
          (\<exists>pre projectName l ch pm probes rest.
             nameFacts args projectName pre \<and>
             l \<in> set [''Python'', ''TypeScript'', ''Ruby''] \<and>
             packageManagerChoices l = Some ch \<and> pm \<in> set ch \<and>
             trace s' = pre @ answered l ch pm @ probes @ rest \<and>
             afterProbes os w args projectName l pm (pre @ answered l ch pm) probes rest r s'))"
    (is "?early \<or> ?late")
proof -
  let ?handler = "\<lambda>error. bind (consoleError (''An unexpected error occurred: '' @ err_message error))
                         (\<lambda>_. exit 1)"
  obtain rp sp where p: "prelude os args user (start w) = (rp, sp)"
    by (cases "prelude os args user (start w)")
  from prelude_shape [OF p] show ?thesis
  proof
    assume early: "kindOf ` set (trace sp) \<subseteq> {KPrint, KInput, KList} \<and>
          (\<forall>ch pm. AskedList ''packageManager'' ch pm \<notin> set (trace sp)) \<and>
          (rp = Exit 0 \<or> rp = Hang)"
    with assms p have "r = status rp \<and> s' = sp"
      by (auto simp: program_def main_def tryCatch_def bind_def)
    with early have ?early by auto
    then show ?thesis ..
  next
    assume "''-h'' \<notin> set args \<and> ''--help'' \<notin> set args \<and>
          (\<exists>pre projectName l ch pm.
             nameFacts args projectName pre \<and>
             l \<in> set [''Python'', ''TypeScript'', ''Ruby''] \<and>
             packageManagerChoices l = Some ch \<and> pm \<in> set ch \<and>
             checkAndPrepare os projectName
               (projectName = ''.'' \<or> ''--use-current-dir'' \<in> set args \<or> ''-.'' \<in> set args)
               (if projectName = ''.'' \<or> ''--use-current-dir'' \<in> set args \<or> ''-.'' \<in> set args
                then os_cwd os w else os_resolve os w projectName)
               l pm
               \<lparr>world = w,
                trace = pre @ [AskedList ''language'' [''Python'', ''TypeScript'', ''Ruby''] l,
                               AskedList ''packageManager'' ch pm]\<rparr> = (rp, sp))"
    then obtain pre projectName l ch pm where
      nohelp: "''-h'' \<notin> set args" "''--help'' \<notin> set args" and
      facts: "nameFacts args projectName pre"
             "l \<in> set [''Python'', ''TypeScript'', ''Ruby'']"
             "packageManagerChoices l = Some ch" "pm \<in> set ch" and
      cp: "checkAndPrepare os projectName (currentDirMode args projectName)
             (targetOf os w args projectName) l pm
             \<lparr>world = w, trace = pre @ answered l ch pm\<rparr> = (rp, sp)"
      unfolding currentDirMode_def targetOf_def answered_def by blast
    let ?ucd = "currentDirMode args projectName"
    let ?td = "targetOf os w args projectName"
    let ?sel = "\<lparr>sel_language = l, sel_packageManager = pm, sel_targetDir = ?td\<rparr>"
    from checkAndPrepare_shape [OF cp] obtain probes rest where
      tsp: "trace sp = pre @ answered l ch pm @ probes @ rest" and
      cases: "(missingProbes pm probes \<and> rest = missingPrints pm \<and> rp = Exit 1) \<or>
        (availableProbes pm probes \<and>
         ((\<exists>e. ?ucd \<and> rp = Throw e \<and> rest = [Exists ?td True, ReadDir ?td (Inl e)]) \<or>
          (rp = Exit 1 \<and> stoppedInDirectory ?ucd ?td projectName rest) \<or>
          (\<exists>checks. rp = Return ?sel \<and> dirChecks ?ucd ?td checks \<and> rest = checks @ [ChangedDir ?td None])))"
      by auto
    from cases consider
        (missing) "missingProbes pm probes" "rest = missingPrints pm" "rp = Exit 1"
      | (threw) e where "availableProbes pm probes" "?ucd" "rp = Throw e"
          "rest = [Exists ?td True, ReadDir ?td (Inl e)]"
      | (stopped) "availableProbes pm probes" "rp = Exit 1" "stoppedInDirectory ?ucd ?td projectName rest"
      | (entered) checks where "availableProbes pm probes" "rp = Return ?sel" "dirChecks ?ucd ?td checks"
          "rest = checks @ [ChangedDir ?td None]"
      by blast
    then obtain probes' rest' where
      final1: "trace s' = pre @ answered l ch pm @ probes' @ rest'" and
      final2: "(missingProbes pm probes' \<and> rest' = missingPrints pm \<and> r = Exit 1) \<or>
              (availableProbes pm probes' \<and> r = Exit 1 \<and> stoppedInDirectory ?ucd ?td projectName rest') \<or>
              (availableProbes pm probes' \<and>
               (\<exists>checks evs sMid.
                  dirChecks ?ucd ?td checks \<and>
                  rest' = checks @ [ChangedDir ?td None] @ evs \<and>
                  trace sMid = pre @ answered l ch pm @ probes' @ checks @ [ChangedDir ?td None] \<and>
                  executeCommands os ?sel sMid = (r, s') \<and>
                  kindOf ` set evs \<subseteq> execKinds \<and> endsWell r))"
    proof cases
      case missing
      with assms p have "r = Exit 1" "s' = sp"
        by (simp_all add: program_def main_def tryCatch_def bind_def)
      with missing tsp that [of probes rest] show ?thesis by simp
    next
      case stopped
      with assms p have "r = Exit 1" "s' = sp"
        by (simp_all add: program_def main_def tryCatch_def bind_def)
      with stopped tsp that [of probes rest] show ?thesis by simp
    next
      case (threw e)
      with assms p have "r = Exit 1"
        "s' = sp\<lparr>trace := trace sp @ [Printed Stderr (''An unexpected error occurred: '' @ err_message e)]\<rparr>"
        by (simp_all add: program_def main_def tryCatch_def bind_def consoleError_def emit_def exit_def)
      with tsp threw
      have "trace s' = pre @ answered l ch pm @ probes @ [Exists ?td True, ReadDir ?td (Inl e),
               Printed Stderr (''An unexpected error occurred: '' @ err_message e)]"
        by simp
      moreover from threw have "stoppedInDirectory ?ucd ?td projectName [Exists ?td True, ReadDir ?td (Inl e),
               Printed Stderr (''An unexpected error occurred: '' @ err_message e)]"
        unfolding stoppedInDirectory_def by blast
      ultimately show ?thesis using \<open>r = Exit 1\<close> threw(1)
          that [of probes "[Exists ?td True, ReadDir ?td (Inl e),
               Printed Stderr (''An unexpected error occurred: '' @ err_message e)]"]
        by simp
    next
      case (entered checks)
      obtain rm sm where x: "executeCommands os ?sel sp = (rm, sm)"
        by (cases "executeCommands os ?sel sp")
      with adds_executeCommands [of os ?sel] obtain evs where
        evs: "trace sm = trace sp @ evs" "kindOf ` set evs \<subseteq> execKinds" and ew': "endsWell (status rm)"
        unfolding adds_def by blast
      from ew' have ew: "endsWell rm" by (simp add: status_unit)
      from assms p entered x ew have "r = rm" "s' = sm"
        by (auto simp: program_def main_def tryCatch_def bind_def endsWell_def)
      with x have x': "executeCommands os ?sel sp = (r, s')" by simp
      from \<open>s' = sm\<close> evs tsp entered
      have t1: "trace s' = pre @ answered l ch pm @ probes @ (checks @ [ChangedDir ?td None] @ evs)"
        and t2: "trace sp = pre @ answered l ch pm @ probes @ checks @ [ChangedDir ?td None]"
        by simp_all
      have "availableProbes pm probes \<and>
               (\<exists>checks' evs' sMid.
                  dirChecks ?ucd ?td checks' \<and>
                  checks @ [ChangedDir ?td None] @ evs = checks' @ [ChangedDir ?td None] @ evs' \<and>
                  trace sMid = pre @ answered l ch pm @ probes @ checks' @ [ChangedDir ?td None] \<and>
                  executeCommands os ?sel sMid = (r, s') \<and>
                  kindOf ` set evs' \<subseteq> execKinds \<and> endsWell r)"
        using entered(1,3) t2 x' evs(2) ew \<open>r = rm\<close>
        by (intro conjI exI [of _ checks] exI [of _ evs] exI [of _ sp]) simp_all
      with t1 that [of probes "checks @ [ChangedDir ?td None] @ evs"] show ?thesis by simp
    qed
    have ?late
      apply (intro conjI nohelp)
      apply (rule exI [of _ pre], rule exI [of _ projectName], rule exI [of _ l], rule exI [of _ ch],
             rule exI [of _ pm], rule exI [of _ probes'], rule exI [of _ rest'])
      apply (intro conjI facts final1)
      unfolding afterProbes_def
      apply (simp only: append_assoc)
      apply (rule final2)
      done
    then show ?thesis ..
  qed
qed

lemma kindOf_mem: "e \<in> set evs \<Longrightarrow> kindOf ` set evs \<subseteq> K \<Longrightarrow> kindOf e \<in> K"
  by auto

lemma kinds_availableProbes: "availableProbes pm probes \<Longrightarrow> kindOf ` set probes \<subseteq> {KProbe}"
  by (auto simp: availableProbes_def probe_def)

lemma kinds_missingProbes: "missingProbes pm probes \<Longrightarrow> kindOf ` set probes \<subseteq> {KProbe}"
  by (auto simp: missingProbes_def probe_def)

lemma kinds_missingPrints: "kindOf ` set (missingPrints pm) \<subseteq> {KPrint}"
  by (simp add: missingPrints_def)

lemma kinds_dirChecks:
  "dirChecks ucd td checks \<Longrightarrow> kindOf ` set checks \<subseteq> {KPrint, KExists, KReadDir, KMkdir}"
  by (auto simp: dirChecks_def split: if_splits)

lemma kinds_stoppedInDirectory:
  "stoppedInDirectory ucd td projectName evs \<Longrightarrow>
   kindOf ` set evs \<subseteq> {KPrint, KExists, KReadDir, KMkdir, KChdir}"
  unfolding stoppedInDirectory_def
  by (elim disjE conjE exE) (auto dest!: kinds_dirChecks)

lemma afterProbes_kinds:
  assumes "afterProbes os w args projectName l pm before probes rest r s'"
  shows "kindOf ` set probes \<subseteq> {KProbe}" "kindOf ` set rest \<subseteq> lateKinds"
proof -
  from assms show "kindOf ` set probes \<subseteq> {KProbe}"
    unfolding afterProbes_def using kinds_availableProbes kinds_missingProbes by blast
  from assms consider
      (a) "rest = missingPrints pm"
    | (b) "stoppedInDirectory (currentDirMode args projectName) (targetOf os w args projectName)
         projectName rest"
    | (c) checks evs where
        "dirChecks (currentDirMode args projectName) (targetOf os w args projectName) checks"
        "rest = checks @ [ChangedDir (targetOf os w args projectName) None] @ evs"
        "kindOf ` set evs \<subseteq> execKinds"
    unfolding afterProbes_def by blast
  then show "kindOf ` set rest \<subseteq> lateKinds"
  proof cases
    case a
    then show ?thesis using kinds_missingPrints [of pm] by (auto simp: lateKinds_def)
  next
    case b
    from kinds_stoppedInDirectory [OF this] show ?thesis by (auto simp: lateKinds_def)
  next
    case c
    from kinds_dirChecks [OF c(1)] c(2,3) show ?thesis by (auto simp: lateKinds_def execKinds_def)
  qed
qed

lemma program_selected:
  assumes run: "program os args user (start w) = (r, s')"
      and sel: "AskedList ''packageManager'' choices pm \<in> set (trace s')"
  obtains pre projectName l probes rest where
      "''-h'' \<notin> set args" "''--help'' \<notin> set args"
      "nameFacts args projectName pre"
      "l \<in> set [''Python'', ''TypeScript'', ''Ruby'']"
      "packageManagerChoices l = Some choices" "pm \<in> set choices"
      "trace s' = pre @ answered l choices pm @ probes @ rest"
      "afterProbes os w args projectName l pm (pre @ answered l choices pm) probes rest r s'"
proof -
  from program_shape [OF run] sel obtain pre projectName l ch pm0 probes rest where
    nohelp: "''-h'' \<notin> set args" "''--help'' \<notin> set args" and
    nf: "nameFacts args projectName pre" and
    l: "l \<in> set [''Python'', ''TypeScript'', ''Ruby'']" and
    ch: "packageManagerChoices l = Some ch" "pm0 \<in> set ch" and
    tr: "trace s' = pre @ answered l ch pm0 @ probes @ rest" and
    ap: "afterProbes os w args projectName l pm0 (pre @ answered l ch pm0) probes rest r s'"
    by (elim disjE conjE exE) (simp, blast)
  from afterProbes_kinds [OF ap] have k: "kindOf ` set probes \<subseteq> {KProbe}" "kindOf ` set rest \<subseteq> lateKinds" .
  from nf have kp: "kindOf ` set pre \<subseteq> {KPrint, KInput}" by (simp add: nameFacts_def)
  from sel tr have "AskedList ''packageManager'' choices pm \<in> set pre \<or>
      AskedList ''packageManager'' choices pm \<in> set (answered l ch pm0) \<or>
      AskedList ''packageManager'' choices pm \<in> set probes \<or>
      AskedList ''packageManager'' choices pm \<in> set rest" by auto
  moreover have "AskedList ''packageManager'' choices pm \<notin> set pre"
    using kindOf_mem [OF _ kp] by fastforce
  moreover have "AskedList ''packageManager'' choices pm \<notin> set probes"
    using kindOf_mem [OF _ k(1)] by fastforce
  moreover have "AskedList ''packageManager'' choices pm \<notin> set rest"
    using kindOf_mem [OF _ k(2)] by (fastforce simp: lateKinds_def)
  ultimately have "AskedList ''packageManager'' choices pm \<in> set (answered l ch pm0)" by blast
  then have "choices = ch" "pm = pm0" by (simp_all add: answered_def)
  with nohelp nf l ch tr ap that show thesis by blast
qed

lemma located:
  assumes nf: "nameFacts args projectName pre"
      and tr: "trace s' = pre @ answered l choices pm @ probes @ rest"
      and ap: "afterProbes os w args projectName l pm before probes rest r s'"
      and e: "e \<in> set (trace s')"
  shows "kindOf e \<in> {KPrint, KInput} \<and> e \<in> set pre \<or>
         e \<in> set (answered l choices pm) \<or>
         kindOf e = KProbe \<and> e \<in> set probes \<or>
         kindOf e \<in> lateKinds \<and> e \<in> set rest"
proof -
  from afterProbes_kinds [OF ap] have k: "kindOf ` set probes \<subseteq> {KProbe}" "kindOf ` set rest \<subseteq> lateKinds" .
  from nf have kp: "kindOf ` set pre \<subseteq> {KPrint, KInput}" by (simp add: nameFacts_def)
  from e tr have "e \<in> set pre \<or> e \<in> set (answered l choices pm) \<or> e \<in> set probes \<or> e \<in> set rest"
    by auto
  with k kp show ?thesis by auto
qed

text \<open>
  C3. In every run, the package-manager prompt offers exactly the managers of the chosen
  language: pip, poetry and uv for Python; npm, pnpm, yarn, deno and bun for TypeScript;
  bundle for Ruby. The offered list has no duplicates, the answer is one of its entries,
  the language is one of the three, and a run asks for the language once.
\<close>
theorem packageManager_prompt_offers_valid_subset:
  assumes run: "program os args user (start w) = (r, s')"
      and sel: "AskedList ''packageManager'' choices packageManager \<in> set (trace s')"
  shows "\<exists>language.
           AskedList ''language'' [''Python'', ''TypeScript'', ''Ruby''] language \<in> set (trace s') \<and>
           (\<forall>offered chosen. AskedList ''language'' offered chosen \<in> set (trace s') \<longrightarrow> chosen = language) \<and>
           language \<in> {''Python'', ''TypeScript'', ''Ruby''} \<and>
           set choices = validManagers language \<and> distinct choices \<and>
           packageManager \<in> set choices"
proof -
  from run sel obtain pre projectName l probes rest where
      nf: "nameFacts args projectName pre" and
      l: "l \<in> set [''Python'', ''TypeScript'', ''Ruby'']" and
      ch: "packageManagerChoices l = Some choices" "packageManager \<in> set choices" and
      tr: "trace s' = pre @ answered l choices packageManager @ probes @ rest" and
      ap: "afterProbes os w args projectName l packageManager
             (pre @ answered l choices packageManager) probes rest r s'"
    by (rule program_selected)
  have 1: "AskedList ''language'' [''Python'', ''TypeScript'', ''Ruby''] l \<in> set (trace s')"
    using tr by (simp add: answered_def)
  have 2: "chosen = l" if "AskedList ''language'' offered chosen \<in> set (trace s')" for offered chosen
    using located [OF nf tr ap that] by (auto simp: answered_def lateKinds_def)
  from l consider "l = ''Python''" | "l = ''TypeScript''" | "l = ''Ruby''" by auto
  then have 3: "set choices = validManagers l \<and> distinct choices"
  proof cases
    case 1
    with ch(1) have "choices = [''pip'', ''poetry'', ''uv'']" by (simp add: packageManagerChoices_def)
    with 1 show ?thesis by (simp add: validManagers_def)
  next
    case 2
    with ch(1) have "choices = [''npm'', ''pnpm'', ''yarn'', ''deno'', ''bun'']"
      by (simp add: packageManagerChoices_def)
    with 2 show ?thesis by (simp add: validManagers_def)
  next
    case 3
    with ch(1) have "choices = [''bundle'']" by (simp add: packageManagerChoices_def)
    with 3 show ?thesis by (simp add: validManagers_def)
  qed
  show ?thesis
  proof (intro exI [of _ l] conjI allI impI)
    show "AskedList ''language'' [''Python'', ''TypeScript'', ''Ruby''] l \<in> set (trace s')" by (rule 1)
    show "chosen = l" if "AskedList ''language'' offered chosen \<in> set (trace s')" for offered chosen
      using that by (rule 2)
    show "l \<in> {''Python'', ''TypeScript'', ''Ruby''}" using l by simp
    show "set choices = validManagers l" using 3 by simp
    show "distinct choices" using 3 by simp
    show "packageManager \<in> set choices" by (rule ch(2))
  qed
qed

lemma probe_located:
  assumes nf: "nameFacts args projectName pre"
      and tr: "trace s' = pre @ answered l choices pm @ probes @ rest"
      and ap: "afterProbes os w args projectName l pm before probes rest r s'"
      and e: "Spawned c a Ignore d x \<in> set (trace s')"
  shows "Spawned c a Ignore d x \<in> set probes"
  using located [OF nf tr ap e] by (auto simp: answered_def lateKinds_def)

lemma afterProbes_cases:
  assumes "afterProbes os w args projectName l pm before probes rest r s'"
  obtains (missing) "missingProbes pm probes" "rest = missingPrints pm" "r = Exit 1"
    | (stopped) "availableProbes pm probes" "r = Exit 1"
        "stoppedInDirectory (currentDirMode args projectName) (targetOf os w args projectName)
           projectName rest"
    | (entered) checks evs sMid where "availableProbes pm probes"
        "dirChecks (currentDirMode args projectName) (targetOf os w args projectName) checks"
        "rest = checks @ [ChangedDir (targetOf os w args projectName) None] @ evs"
        "trace sMid = before @ probes @ checks @ [ChangedDir (targetOf os w args projectName) None]"
        "executeCommands os \<lparr>sel_language = l, sel_packageManager = pm,
                               sel_targetDir = targetOf os w args projectName\<rparr> sMid = (r, s')"
        "kindOf ` set evs \<subseteq> execKinds" "endsWell r"
  using assms unfolding afterProbes_def by blast

lemma available_not_failed:
  assumes av: "availableProbes pm probes"
      and f: "Spawned pm [''--version''] Ignore None (Some e) \<in> set probes"
      and n: "pm \<in> set [''npm'', ''pnpm'', ''yarn''] \<longrightarrow>
                (\<exists>e'. Spawned ''node'' [''--version''] Ignore None (Some e') \<in> set probes)"
  shows False
proof -
  from av consider "probes = [probe pm None]"
    | e1 where "pm \<in> set [''npm'', ''pnpm'', ''yarn'']" "probes = [probe pm (Some e1), probe ''node'' None]"
    unfolding availableProbes_def by blast
  then show False
  proof cases
    case 1
    with f show False by (simp add: probe_def)
  next
    case (2 e1)
    with n obtain e' where "Spawned ''node'' [''--version''] Ignore None (Some e') \<in> set probes" by blast
    with 2 show False by (auto simp: probe_def)
  qed
qed

text \<open>
  C1, as amended. In every run in which the probe of the selected package manager fails
  and, when that manager is npm, pnpm or yarn, the probe of \<^verbatim>\<open>node\<close> fails as well, the
  process ends with exit code 1; the last three things it did are the two error lines and
  the installation link; and all it ever did was print, prompt and probe: no directory
  was made or entered, no file written, no scaffolding command run.
\<close>
theorem missing_package_manager_halts:
  assumes run: "program os args user (start w) = (r, s')"
      and sel: "AskedList ''packageManager'' choices packageManager \<in> set (trace s')"
      and failed: "Spawned packageManager [''--version''] Ignore None (Some e) \<in> set (trace s')"
      and node: "packageManager \<in> set [''npm'', ''pnpm'', ''yarn''] \<longrightarrow>
                   (\<exists>e'. Spawned ''node'' [''--version''] Ignore None (Some e') \<in> set (trace s'))"
  shows "r = Exit 1 \<and> exitCode r = Some 1 \<and>
         (\<exists>before. trace s' = before @
            [Printed Stdout (''\<newline>Error: '' @ packageManager @ '' is not installed or not available in PATH''),
             Printed Stdout (''Please install '' @ packageManager @ '' first.''),
             Printed Stdout (installLink packageManager @ ''\<newline>'')]) \<and>
         (\<forall>ev \<in> set (trace s'). kindOf ev \<in> {KPrint, KInput, KList, KProbe})"
proof -
  from run sel obtain pre projectName l probes rest where
      nf: "nameFacts args projectName pre" and
      tr: "trace s' = pre @ answered l choices packageManager @ probes @ rest" and
      ap: "afterProbes os w args projectName l packageManager
             (pre @ answered l choices packageManager) probes rest r s'"
    by (rule program_selected)
  from probe_located [OF nf tr ap failed]
  have f: "Spawned packageManager [''--version''] Ignore None (Some e) \<in> set probes" .
  from node probe_located [OF nf tr ap]
  have n: "packageManager \<in> set [''npm'', ''pnpm'', ''yarn''] \<longrightarrow>
                (\<exists>e'. Spawned ''node'' [''--version''] Ignore None (Some e') \<in> set probes)"
    by blast
  from ap show ?thesis
  proof (cases rule: afterProbes_cases)
    case missing
    from nf have kp: "kindOf ` set pre \<subseteq> {KPrint, KInput}" by (simp add: nameFacts_def)
    from kinds_missingProbes [OF missing(1)] have kq: "kindOf ` set probes \<subseteq> {KProbe}" .
    have "\<exists>before. trace s' = before @
            [Printed Stdout (''\<newline>Error: '' @ packageManager @ '' is not installed or not available in PATH''),
             Printed Stdout (''Please install '' @ packageManager @ '' first.''),
             Printed Stdout (installLink packageManager @ ''\<newline>'')]"
    proof (rule exI [of _ "pre @ answered l choices packageManager @ probes"])
      show "trace s' = (pre @ answered l choices packageManager @ probes) @
            [Printed Stdout (''\<newline>Error: '' @ packageManager @ '' is not installed or not available in PATH''),
             Printed Stdout (''Please install '' @ packageManager @ '' first.''),
             Printed Stdout (installLink packageManager @ ''\<newline>'')]"
        using tr missing(2) by (simp add: missingPrints_def)
    qed
    moreover have "\<forall>ev \<in> set (trace s'). kindOf ev \<in> {KPrint, KInput, KList, KProbe}"
      using tr missing(2) kp kq by (auto simp: answered_def missingPrints_def)
    ultimately show ?thesis using missing(3) by (simp add: exitCode_def)
  next
    case stopped
    from available_not_failed [OF stopped(1) f n] show ?thesis ..
  next
    case (entered checks evs sMid)
    from available_not_failed [OF entered(1) f n] show ?thesis ..
  qed
qed

lemma currentDirMode_of_uses:
  assumes nf: "nameFacts args projectName pre"
      and tr: "trace s' = pre @ answered l choices pm @ probes @ rest"
      and ap: "afterProbes os w args projectName l pm before probes rest r s'"
  shows "usesCurrentDir args (trace s') = currentDirMode args projectName"
proof
  assume u: "usesCurrentDir args (trace s')"
  then consider "''--use-current-dir'' \<in> set args \<or> ''-.'' \<in> set args" | "take 1 args = [''.'']"
    | "AskedInput ''projectName'' ''.'' \<in> set (trace s')"
    unfolding usesCurrentDir_def by blast
  then show "currentDirMode args projectName"
  proof cases
    case 1
    then show ?thesis unfolding currentDirMode_def by blast
  next
    case 2
    with nf have "projectName = ''.''" unfolding nameFacts_def by simp
    then show ?thesis unfolding currentDirMode_def by blast
  next
    case 3
    from located [OF nf tr ap 3] have "AskedInput ''projectName'' ''.'' \<in> set pre"
      by (auto simp: answered_def lateKinds_def)
    with nf have "projectName = ''.''" unfolding nameFacts_def by blast
    then show ?thesis unfolding currentDirMode_def by blast
  qed
next
  assume c: "currentDirMode args projectName"
  show "usesCurrentDir args (trace s')"
  proof (cases "projectName = ''.''")
    case False
    with c show ?thesis unfolding currentDirMode_def usesCurrentDir_def by blast
  next
    case True
    from nf have "(\<exists>a. take 1 args = [a] \<and> a \<noteq> []) \<or> AskedInput ''projectName'' projectName \<in> set pre"
      and "\<forall>a. take 1 args = [a] \<and> a \<noteq> [] \<longrightarrow> projectName = a"
      unfolding nameFacts_def by blast+
    with True tr have "take 1 args = [''.''] \<or> AskedInput ''projectName'' ''.'' \<in> set (trace s')"
      by auto
    then show ?thesis unfolding usesCurrentDir_def by blast
  qed
qed

lemma dirChecks_current_observes:
  assumes "dirChecks True td checks"
  shows "Exists td False \<in> set checks \<or> ReadDir td (Inr []) \<in> set checks"
  using assms by (auto simp: dirChecks_def)

text \<open>
  C2, as amended. Take a run that works in the current directory (\<^verbatim>\<open>--use-current-dir\<close>,
  \<^verbatim>\<open>-.\<close> or the project name \<^verbatim>\<open>"."\<close>), without a help flag and with all prompts answered (it
  selected a package manager), and in which the current directory, whenever the run looks
  at it, exists and has entries. It ends with exit code 1, and before that it only
  printed, prompted, probed (\<^verbatim>\<open>--version\<close> of the package manager, and of \<^verbatim>\<open>node\<close>) and looked
  at the directory: no scaffolding command, no directory made or entered, no file written.
\<close>
theorem nonempty_current_directory_halts:
  assumes run: "program os args user (start w) = (r, s')"
      and sel: "AskedList ''packageManager'' choices packageManager \<in> set (trace s')"
      and cur: "usesCurrentDir args (trace s')"
      and present: "Exists (os_cwd os w) False \<notin> set (trace s')"
      and entries: "ReadDir (os_cwd os w) (Inr []) \<notin> set (trace s')"
  shows "r = Exit 1 \<and> exitCode r = Some 1 \<and>
         (\<forall>ev \<in> set (trace s'). kindOf ev \<in> {KPrint, KInput, KList, KProbe, KExists, KReadDir})"
proof -
  from run sel obtain pre projectName l probes rest where
      nf: "nameFacts args projectName pre" and
      tr: "trace s' = pre @ answered l choices packageManager @ probes @ rest" and
      ap: "afterProbes os w args projectName l packageManager
             (pre @ answered l choices packageManager) probes rest r s'"
    by (rule program_selected)
  from cur currentDirMode_of_uses [OF nf tr ap] have cm: "currentDirMode args projectName" by simp
  then have td: "targetOf os w args projectName = os_cwd os w" by (simp add: targetOf_def)
  from nf have kp: "kindOf ` set pre \<subseteq> {KPrint, KInput}" by (simp add: nameFacts_def)
  from afterProbes_kinds(1) [OF ap] have kq: "kindOf ` set probes \<subseteq> {KProbe}" .
  have early: "\<forall>ev \<in> set (pre @ answered l choices packageManager @ probes).
                 kindOf ev \<in> {KPrint, KInput, KList, KProbe, KExists, KReadDir}"
    using kp kq by (auto simp: answered_def)
  have notObserved: False if "dirChecks True (os_cwd os w) checks" "set checks \<subseteq> set rest" for checks
    using dirChecks_current_observes [OF that(1)] that(2) present entries tr by auto
  from ap show ?thesis
  proof (cases rule: afterProbes_cases)
    case missing
    with early tr show ?thesis by (auto simp: missingPrints_def exitCode_def)
  next
    case stopped
    from stopped(3) cm td
    consider (notEmpty) x xs where "rest = [Exists (os_cwd os w) True, ReadDir (os_cwd os w) (Inr (x # xs)),
          Printed Stderr ''\<newline>Error: Current directory is not empty. Please use a new directory or empty the current one.'']"
      | (unreadable) e where "rest = [Exists (os_cwd os w) True, ReadDir (os_cwd os w) (Inl e),
          Printed Stderr (''An unexpected error occurred: '' @ err_message e)]"
      | (chdir) checks e where "dirChecks True (os_cwd os w) checks" "rest = checks @ [ChangedDir (os_cwd os w) (Some e),
          Printed Stderr (''Error changing to directory: '' @ err_message e)]"
      unfolding stoppedInDirectory_def by auto
    then show ?thesis
    proof cases
      case notEmpty
      with early tr stopped(2) show ?thesis by (auto simp: exitCode_def)
    next
      case unreadable
      with early tr stopped(2) show ?thesis by (auto simp: exitCode_def)
    next
      case (chdir checks e)
      from notObserved [OF chdir(1)] chdir(2) show ?thesis by auto
    qed
  next
    case (entered checks evs sMid)
    from notObserved [of checks] entered(2,3) cm td show ?thesis by auto
  qed
qed

lemma steps_append [simp]: "steps (xs @ ys) = steps xs @ steps ys"
  by (induction xs rule: steps.induct) simp_all

lemma steps_other:
  assumes "kindOf e \<noteq> KStep"
  shows "steps (e # es) = steps es"
proof (cases e)
  case (Spawned c a io d r)
  with assms show ?thesis by (cases io) simp_all
qed simp_all

lemma steps_none: "KStep \<notin> kindOf ` set evs \<Longrightarrow> steps evs = []"
proof (induction evs)
  case Nil
  show ?case by simp
next
  case (Cons e es)
  then have "kindOf e \<noteq> KStep" "steps es = []" by auto
  then show ?case by (simp add: steps_other)
qed

lemma steps_marks [simp]: "steps (running d # es) = steps es" "steps (diagnostic c e # es) = steps es"
  by (simp_all add: running_def diagnostic_def)

lemma bind_runCommand:
  "bind (runCommand os command args description dir) k s =
     (case os_execa os (world s) command args Inherit dir of
        (Inl e, w) \<Rightarrow>
          (Exit 1, \<lparr>world = w, trace = trace s @ [running description,
                     Spawned command args Inherit dir (Some e), diagnostic command e]\<rparr>)
      | (Inr out, w) \<Rightarrow>
          k out \<lparr>world = w, trace = trace s @ [running description,
                     Spawned command args Inherit dir None, Printed Stdout ''Success!'']\<rparr>)"
  by (simp add: runCommand_def tryCatch_def bind_def execa_def ret_def consoleLog_def
      consoleError_def emit_def exit_def running_def diagnostic_def split: prod.splits sum.splits)

lemma bind_assoc: "bind (bind m f) g = bind m (\<lambda>x. bind (f x) g)"
  by (rule ext) (rule bind_assoc_apply)

lemma adds_afterTypeScript:
  "adds execKinds endsWell
     (bind (createTsconfig os pm) (\<lambda>_. bind (installBaml os pm td) (\<lambda>_.
      bind (consoleLog a) (\<lambda>_. consoleLog b))))"
  by (intro adds_intros adds_createTsconfig adds_installBaml) simp_all

lemma bind_ret_fun: "bind (ret x) k = k x"
  by (rule ext) (rule bind_ret)

lemma executeCommands_typescript_first:
  assumes three: "pm \<in> set [''npm'', ''pnpm'', ''yarn'']"
      and run: "executeCommands os \<lparr>sel_language = ''TypeScript'', sel_packageManager = pm,
                                     sel_targetDir = td\<rparr> s = (r, s')"
  shows "\<exists>more. steps (trace s') = steps (trace s) @ (pm, typeScriptInstall pm) # more"
proof -
  let ?rest = "bind (createTsconfig os pm) (\<lambda>_. bind (installBaml os pm td) (\<lambda>_.
      bind (consoleLog ''\<newline>All done! Your BAML project is ready.'') (\<lambda>_.
      consoleLog ''Next steps: Check your project directory and start coding!'')))"
  let ?s1 = "s\<lparr>trace := trace s @ [Printed Stdout (''\<newline>Setting up your TypeScript BAML project with '' @ pm @ ''...\<newline>'')]\<rparr>"
  from three consider "pm = ''npm''" | "pm = ''pnpm''" | "pm = ''yarn''" by auto
  then have b: "bind (runCommand os pm (typeScriptInstall pm) ''Installing TypeScript'' None) (\<lambda>_. ?rest) ?s1 = (r, s')"
  proof cases
    case 1
    with run show ?thesis
      by (simp add: executeCommands_def setupTypeScript_def installTypeScript_def typeScriptInstall_def
          bind_assoc bind_consoleLog bind_ret_fun)
  next
    case 2
    with run show ?thesis
      by (simp add: executeCommands_def setupTypeScript_def installTypeScript_def typeScriptInstall_def
          bind_assoc bind_consoleLog bind_ret_fun)
  next
    case 3
    with run show ?thesis
      by (simp add: executeCommands_def setupTypeScript_def installTypeScript_def typeScriptInstall_def
          bind_assoc bind_consoleLog bind_ret_fun)
  qed
  obtain res w1 where x: "os_execa os (world ?s1) pm (typeScriptInstall pm) Inherit None = (res, w1)"
    by (cases "os_execa os (world ?s1) pm (typeScriptInstall pm) Inherit None")
  show ?thesis
  proof (cases res)
    case (Inl e)
    with b x have "trace s' = trace ?s1 @ [running ''Installing TypeScript'',
                     Spawned pm (typeScriptInstall pm) Inherit None (Some e), diagnostic pm e]"
      by (auto simp: bind_runCommand)
    then show ?thesis by simp
  next
    case (Inr out)
    let ?s2 = "\<lparr>world = w1, trace = trace ?s1 @ [running ''Installing TypeScript'',
                     Spawned pm (typeScriptInstall pm) Inherit None None, Printed Stdout ''Success!'']\<rparr>"
    from b x Inr have "?rest ?s2 = (r, s')" by (simp add: bind_runCommand)
    with adds_afterTypeScript [of os pm td] obtain evs where "trace s' = trace ?s2 @ evs"
      unfolding adds_def by blast
    then show ?thesis by simp
  qed
qed

lemma dirChecks_starts:
  assumes "dirChecks ucd td checks"
  obtains present more where "checks = Exists td present # more"
  using assms by (auto simp: dirChecks_def split: if_splits)

lemma stoppedInDirectory_starts:
  assumes "stoppedInDirectory ucd td projectName evs"
  obtains present more where "evs = Exists td present # more"
  using assms unfolding stoppedInDirectory_def
  by (elim disjE conjE exE dirChecks_starts) auto

lemma stoppedInDirectory_no_chdir:
  assumes "stoppedInDirectory ucd td projectName evs"
  shows "ChangedDir target None \<notin> set evs"
  using assms unfolding stoppedInDirectory_def
  by (elim disjE conjE exE) (auto dest!: kinds_dirChecks)

lemma typescript_of_manager:
  assumes "l \<in> set [''Python'', ''TypeScript'', ''Ruby'']" "packageManagerChoices l = Some choices"
      "pm \<in> set choices" "pm \<in> set [''npm'', ''pnpm'', ''yarn'']"
  shows "l = ''TypeScript''"
proof -
  from assms(1) consider "l = ''Python''" | "l = ''TypeScript''" | "l = ''Ruby''" by auto
  then show ?thesis
  proof cases
    case 1
    with assms(2) have "choices = [''pip'', ''poetry'', ''uv'']" by (simp add: packageManagerChoices_def)
    with assms(3,4) show ?thesis by auto
  next
    case 2
    then show ?thesis .
  next
    case 3
    with assms(2) have "choices = [''bundle'']" by (simp add: packageManagerChoices_def)
    with assms(3,4) show ?thesis by auto
  qed
qed

text \<open>
  C9. Take a run that selected npm, pnpm or yarn, in which the probe of that package manager
  failed and the probe of \<^verbatim>\<open>node\<close> succeeded. The package manager counts as available: right
  after the probe of \<^verbatim>\<open>node\<close> the run goes on to the target directory, whose existence it
  checks next. And whenever it then gets into the target directory, it has created that
  directory itself (unless it works in the current one) and the command sequence has
  begun, with the installation of TypeScript by the selected package manager.
\<close>
theorem node_probe_stands_in:
  assumes run: "program os args user (start w) = (r, s')"
      and sel: "AskedList ''packageManager'' choices packageManager \<in> set (trace s')"
      and three: "packageManager \<in> set [''npm'', ''pnpm'', ''yarn'']"
      and failed: "Spawned packageManager [''--version''] Ignore None (Some e) \<in> set (trace s')"
      and node: "Spawned ''node'' [''--version''] Ignore None None \<in> set (trace s')"
  shows "(\<exists>before target present after.
            trace s' = before @ [Spawned packageManager [''--version''] Ignore None (Some e),
                                 Spawned ''node'' [''--version''] Ignore None None,
                                 Exists target present] @ after) \<and>
         (\<forall>target. ChangedDir target None \<in> set (trace s') \<longrightarrow>
            (\<not> usesCurrentDir args (trace s') \<longrightarrow> MadeDir target None \<in> set (trace s')) \<and>
            (\<exists>more. steps (trace s') = (packageManager, typeScriptInstall packageManager) # more))"
proof -
  from run sel obtain pre projectName l probes rest where
      nf: "nameFacts args projectName pre" and
      l: "l \<in> set [''Python'', ''TypeScript'', ''Ruby'']" and
      ch: "packageManagerChoices l = Some choices" "packageManager \<in> set choices" and
      tr: "trace s' = pre @ answered l choices packageManager @ probes @ rest" and
      ap: "afterProbes os w args projectName l packageManager
             (pre @ answered l choices packageManager) probes rest r s'"
    by (rule program_selected)
  let ?ucd = "currentDirMode args projectName"
  let ?td = "targetOf os w args projectName"
  let ?before = "pre @ answered l choices packageManager"
  from typescript_of_manager [OF l ch three] have ts: "l = ''TypeScript''" .
  from probe_located [OF nf tr ap failed]
  have f: "Spawned packageManager [''--version''] Ignore None (Some e) \<in> set probes" .
  from probe_located [OF nf tr ap node]
  have n: "Spawned ''node'' [''--version''] Ignore None None \<in> set probes" .
  from nf have kp: "kindOf ` set pre \<subseteq> {KPrint, KInput}" by (simp add: nameFacts_def)
  have probes: "probes = [Spawned packageManager [''--version''] Ignore None (Some e),
                          Spawned ''node'' [''--version''] Ignore None None]"
    if "availableProbes packageManager probes"
    using that f n three unfolding availableProbes_def probe_def by auto
  have early: "ChangedDir target None \<notin> set (?before @ probes)" for target
    using kp afterProbes_kinds(1) [OF ap] by (auto simp: answered_def)
  have notMissing: "\<not> missingProbes packageManager probes"
    using n three unfolding missingProbes_def probe_def by auto
  from ap show ?thesis
  proof (cases rule: afterProbes_cases)
    case missing
    with notMissing show ?thesis by simp
  next
    case stopped
    from stopped(3) obtain present more where rest: "rest = Exists ?td present # more"
      by (rule stoppedInDirectory_starts)
    have 1: "\<exists>before target present after.
            trace s' = before @ [Spawned packageManager [''--version''] Ignore None (Some e),
                                 Spawned ''node'' [''--version''] Ignore None None,
                                 Exists target present] @ after"
      by (intro exI [of _ ?before] exI [of _ ?td] exI [of _ present] exI [of _ more])
         (simp add: tr probes [OF stopped(1)] rest)
    have 2: "ChangedDir target None \<notin> set (trace s')" for target
      using early [of target] stoppedInDirectory_no_chdir [OF stopped(3), of target] tr by auto
    from 1 2 show ?thesis by blast
  next
    case (entered checks evs sMid)
    from entered(2) obtain present more where checks: "checks = Exists ?td present # more"
      by (rule dirChecks_starts)
    have 1: "\<exists>before target present after.
            trace s' = before @ [Spawned packageManager [''--version''] Ignore None (Some e),
                                 Spawned ''node'' [''--version''] Ignore None None,
                                 Exists target present] @ after"
      by (intro exI [of _ ?before] exI [of _ ?td] exI [of _ present]
          exI [of _ "more @ [ChangedDir ?td None] @ evs"])
         (simp add: tr probes [OF entered(1)] entered(3) checks)
    have target: "target = ?td" if "ChangedDir target None \<in> set (trace s')" for target
    proof -
      from that early [of target] tr have "ChangedDir target None \<in> set rest" by auto
      with entered(3) kinds_dirChecks [OF entered(2)] entered(6) show ?thesis
        by (auto simp: execKinds_def)
    qed
    have made: "MadeDir ?td None \<in> set (trace s')" if "\<not> usesCurrentDir args (trace s')"
    proof -
      from that currentDirMode_of_uses [OF nf tr ap] have "\<not> ?ucd" by simp
      with entered(2) have "MadeDir ?td None \<in> set checks" by (simp add: dirChecks_def)
      with tr entered(3) show ?thesis by simp
    qed
    have "KStep \<notin> kindOf ` set (trace sMid)"
      using entered(4) kp afterProbes_kinds(1) [OF ap] kinds_dirChecks [OF entered(2)]
      by (auto simp: answered_def)
    then have "steps (trace sMid) = []" by (rule steps_none)
    with executeCommands_typescript_first [OF three entered(5) [unfolded ts]]
    have first: "\<exists>more. steps (trace s') = (packageManager, typeScriptInstall packageManager) # more"
      by simp
    from 1 target made first show ?thesis by blast
  qed
qed

text \<open>
  C6. For every executable name, \<^verbatim>\<open>checkCommandAvailable\<close> returns a boolean: true when
  the version query succeeds and false when it fails, whatever the failure (the
  executable does not exist, or it exits with an error). It never throws, never ends the
  process and never waits.
\<close>

theorem checkCommandAvailable_returns_boolean:
  "\<exists>s'. checkCommandAvailable os command s =
     (Return (case fst (os_execa os (world s) command [''--version''] Ignore None) of
                Inl error \<Rightarrow> False
              | Inr stdout \<Rightarrow> True), s')"
  by (simp add: checkCommandAvailable_def tryCatch_def bind_def execa_def ret_def
      split: prod.splits sum.splits)

text \<open>
  C5. When the executable of a command step fails (\<^verbatim>\<open>execa\<close> rejects, for a non-zero exit
  as for a spawn error), \<^verbatim>\<open>runCommand\<close> prints one diagnostic, the "not found" text when
  the error code is \<^verbatim>\<open>ENOENT\<close> and the tool's own message otherwise, and ends the process
  with exit code 1. Whatever would follow the step (\<open>k\<close>) is not run, and the step was
  spawned once.
\<close>

theorem runCommand_failure_halts:
  assumes "os_execa os (world s) command args Inherit dir = (Inl error, w)"
  shows "bind (runCommand os command args description dir) k s =
          (Exit 1,
           \<lparr>world = w,
            trace = trace s @
              [Printed Stdout (''\<newline>Running: '' @ description @ ''...''),
               Spawned command args Inherit dir (Some error),
               Printed Stderr (if err_code error = Some ''ENOENT''
                               then notFoundMessage command
                               else ''Error: '' @ err_message error)]\<rparr>)"
  using assms
  by (simp add: runCommand_def tryCatch_def bind_def execa_def ret_def consoleLog_def
      consoleError_def emit_def exit_def split: prod.splits sum.splits)

end
